theory Spec2Isabelle
  imports Main "HOL-Library.Code_Target_Numeral"
begin

section \<open>The compound document of xlnt: data model\<close>

text \<open>
  The development embeds \<^verbatim>\<open>source/detail/cryptography/compound_document.cpp\<close>.
  Sector and directory identifiers are the signed 32-bit integers of the source, written
  as \<open>int\<close>; \<open>std::size_t\<close> is taken to be 64 bits wide and its wrap-around is written out
  where the source converts a signed identifier to it.
\<close>

type_synonym sector_id = int
type_synonym directory_id = int
type_synonym sector_chain = "sector_id list"

definition FreeSector :: sector_id where "FreeSector = -1"
definition EndOfChain :: sector_id where "EndOfChain = -2"
definition SATSector :: sector_id where "SATSector = -3"
definition End :: directory_id where "End = -1"

text \<open>
  What the source can do besides returning: throw \<open>std::out_of_range\<close> (from
  \<open>std::vector::at\<close>); throw \<open>std::length_error\<close> or \<open>std::bad_alloc\<close> when a vector
  cannot grow (\<open>alloc_error\<close> for both); or run into undefined behaviour (an unchecked index
  outside a vector or array, a division by zero, a shift by the width of the type or more).
  \<open>naming_error\<close> is the Naming error of the spec, which only the setter of an entry's name
  can raise here. \<open>implementation_defined\<close> marks the one place where the result depends on
  the implementation, the conversion of a size that does not fit 32 bits. A loop that does
  not end is the value \<open>None\<close> of the functions defined with
  \<^theory_text>\<open>partial_function\<close>.
\<close>

datatype error = out_of_range | undefined_behaviour | alloc_error | naming_error
  | implementation_defined

definition ebind :: "error + 'a \<Rightarrow> ('a \<Rightarrow> error + 'b) \<Rightarrow> error + 'b" where
  "ebind m f = (case m of Inl e \<Rightarrow> Inl e | Inr x \<Rightarrow> f x)"

definition obind :: "(error + 'a) option \<Rightarrow> ('a \<Rightarrow> (error + 'b) option) \<Rightarrow> (error + 'b) option" where
  "obind m f = (case m of None \<Rightarrow> None | Some (Inl e) \<Rightarrow> Some (Inl e) | Some (Inr x) \<Rightarrow> f x)"

text \<open>\<open>size_t_of\<close> is the conversion of a signed identifier to \<open>std::size_t\<close>.\<close>

definition size_t_of :: "int \<Rightarrow> nat" where
  "size_t_of i = nat (i mod 2 ^ 64)"

text \<open>\<open>v[i]\<close> on a \<open>std::vector\<close> with a signed index: unchecked, so undefined outside.\<close>

definition vec_get :: "'a list \<Rightarrow> int \<Rightarrow> error + 'a" where
  "vec_get v i = (if 0 \<le> i \<and> nat i < length v then Inr (v ! nat i) else Inl undefined_behaviour)"

definition vec_set :: "'a list \<Rightarrow> int \<Rightarrow> 'a \<Rightarrow> error + 'a list" where
  "vec_set v i x = (if 0 \<le> i \<and> nat i < length v then Inr (v[nat i := x]) else Inl undefined_behaviour)"

text \<open>
  The conversion of a \<open>std::size_t\<close> to the 32-bit \<open>sector_id\<close> or \<open>directory_id\<close>, as in
  \<open>sector_id(sat_.size())\<close>: a size below \<open>2^31\<close> keeps its value; what a larger one becomes
  is left to the implementation, and the model stops there.
\<close>

definition to_int32 :: "nat \<Rightarrow> error + int" where
  "to_int32 n = (if n < 2 ^ 31 then Inr (int n) else Inl implementation_defined)"

text \<open>
  A \<open>std::vector\<close> of elements of \<open>elem\<close> bytes holds at most \<open>max_size\<close> elements, with
  the formula of a 64-bit implementation of the standard library. Growing it further throws
  \<open>std::length_error\<close>; a machine that runs out of memory before throws \<open>std::bad_alloc\<close>
  earlier, which this model leaves out.
\<close>

definition max_size :: "nat \<Rightarrow> nat" where
  "max_size elem = (2 ^ 63 - 1) div elem"

definition push_back :: "nat \<Rightarrow> 'a list \<Rightarrow> 'a \<Rightarrow> error + 'a list" where
  "push_back elem v x = (if length v < max_size elem then Inr (v @ [x]) else Inl alloc_error)"

text \<open>Addition of two 32-bit signed numbers; its overflow is undefined.\<close>

definition int32_add :: "int \<Rightarrow> int \<Rightarrow> error + int" where
  "int32_add a b = (if - (2 ^ 31) \<le> a + b \<and> a + b < 2 ^ 31 then Inr (a + b) else Inl undefined_behaviour)"

text \<open>
  \<open>v.resize(n, x)\<close>; the construction \<open>std::vector<T>(n)\<close> is the resize of an empty vector.
\<close>

definition resize :: "nat \<Rightarrow> 'a list \<Rightarrow> nat \<Rightarrow> 'a \<Rightarrow> error + 'a list" where
  "resize elem v n x =
     (if n \<le> max_size elem then Inr (take n v @ replicate (n - length v) x) else Inl alloc_error)"

text \<open>
  Modelled from the spec: \<open>sizeof(compound_document_header)\<close> is 512 and
  \<open>sizeof(compound_document_entry)\<close> is 128 (both structs are declared in the header file).
  A \<open>sector_id\<close> takes 4 bytes, and a \<open>std::string\<close> 32 in a 64-bit implementation of the
  library.
\<close>

definition sizeof_header :: nat where "sizeof_header = 512"
definition sizeof_entry :: nat where "sizeof_entry = 128"
definition sizeof_sector_id :: nat where "sizeof_sector_id = 4"
definition sizeof_string :: nat where "sizeof_string = 32"

section \<open>follow\_chain\<close>

text \<open>
  \<^verbatim>\<open>while (current >= 0) { chain.push_back(current); current = table[current]; }\<close>
\<close>

partial_function (option) follow_chain_loop ::
  "sector_chain \<Rightarrow> sector_id \<Rightarrow> sector_chain \<Rightarrow> (error + sector_chain) option" where
  "follow_chain_loop table current chain =
     (if current \<ge> 0 then
        (case push_back sizeof_sector_id chain current of
           Inl e \<Rightarrow> Some (Inl e)
         | Inr chain1 \<Rightarrow>
             (case vec_get table current of
                Inl e \<Rightarrow> Some (Inl e)
              | Inr nxt \<Rightarrow> follow_chain_loop table nxt chain1))
      else Some (Inr chain))"

declare follow_chain_loop.simps [code]

definition follow_chain :: "sector_id \<Rightarrow> sector_chain \<Rightarrow> (error + sector_chain) option" where
  "follow_chain start table = follow_chain_loop table start []"

section \<open>Directory entries, header and document state\<close>

datatype entry_type = Empty | UserStorage | UserStream | LockBytes | Property | RootStorage

datatype entry_color = Red | Black

text \<open>
  The fields of \<open>compound_document_entry\<close> that the source file uses; \<open>prev\<close> and \<open>next\<close>
  are the left and right child in the red-black tree of the entry's storage.
\<close>

record compound_document_entry =
  name_e :: string
  type_e :: entry_type
  color_e :: entry_color
  prev_e :: directory_id
  next_e :: directory_id
  child_e :: directory_id
  start_e :: sector_id
  size_e :: nat

record compound_document_header =
  sector_size_power :: nat
  short_sector_size_power :: nat
  num_msat_sectors :: nat
  directory_start :: sector_id
  ssat_start :: sector_id
  num_short_sectors :: nat
  extra_msat_start :: sector_id
  msat :: "sector_id list"

text \<open>
  The two stream buffers of the source, \<open>compound_document_istreambuf\<close> and
  \<open>compound_document_ostreambuf\<close>, hold the same two members.
\<close>

record streambuf =
  data_b :: string
  position_b :: nat

text \<open>
  The members of \<open>compound_document\<close> (\<open>header_\<close>, \<open>msat_\<close>, \<open>sat_\<close>, ...), with the suffix
  \<open>_m\<close> in place of the trailing underscore. The sink \<open>out_\<close> is kept as the sequence of the
  writes made to it, each as the position given to \<open>seekp\<close> and the number of bytes given to
  \<open>write\<close>.

  Modelled from the spec: the declarations of the header file. \<open>parent_\<close> and
  \<open>parent_storage_\<close> are the side tables from directory IDs to directory IDs, whose
  \<open>operator[]\<close> yields the value-initialised 0 for an absent key.
\<close>

record compound_document =
  header_m :: compound_document_header
  msat_m :: sector_chain
  sat_m :: sector_chain
  ssat_m :: sector_chain
  entries_m :: "compound_document_entry list"
  parent_storage_m :: "directory_id \<rightharpoonup> directory_id"
  parent_m :: "directory_id \<rightharpoonup> directory_id"
  out_m :: "(nat \<times> nat) list"
  stream_in_buffer_m :: "streambuf option"
  stream_out_buffer_m :: "streambuf option"

definition map_at :: "(directory_id \<rightharpoonup> directory_id) \<Rightarrow> directory_id \<Rightarrow> directory_id" where
  "map_at m k = (case m k of None \<Rightarrow> 0 | Some v \<Rightarrow> v)"

text \<open>
  \<^verbatim>\<open>static_cast<std::size_t>(1) << header_.sector_size_power\<close>: a shift by 64 or more is
  undefined.
\<close>

definition sector_size :: "compound_document \<Rightarrow> error + nat" where
  "sector_size s =
     (if sector_size_power (header_m s) < 64 then Inr (2 ^ sector_size_power (header_m s))
      else Inl undefined_behaviour)"

definition short_sector_size :: "compound_document \<Rightarrow> error + nat" where
  "short_sector_size s =
     (if short_sector_size_power (header_m s) < 64 then Inr (2 ^ short_sector_size_power (header_m s))
      else Inl undefined_behaviour)"

definition sector_data_start :: nat where
  "sector_data_start = sizeof_header"

section \<open>Sector output\<close>

text \<open>
  A \<open>binary_reader<T>\<close> over a vector: the size of \<open>T\<close>, the number of elements and the
  offset, which the source counts in elements when it forms \<open>data() + offset()\<close> and
  subtracts from the number of bytes when it computes how much to write.
\<close>

record binary_reader =
  rd_elem :: nat
  rd_count :: nat
  rd_offset :: nat

definition rd_bytes :: "binary_reader \<Rightarrow> nat" where
  "rd_bytes r = rd_elem r * rd_count r"

text \<open>
  \<^verbatim>\<open>out_->seekp(sector_data_start() + sector_size() * id);
  out_->write(data() + offset(), min(sector_size(), bytes() - offset()));\<close>
  Reading the source vector past its end is undefined.
\<close>

definition write_sector :: "binary_reader \<Rightarrow> sector_id \<Rightarrow> compound_document \<Rightarrow> error + compound_document" where
  "write_sector reader id' s =
     ebind (sector_size s) (\<lambda>ssize.
     let pos = (sector_data_start + ssize * size_t_of id') mod 2 ^ 64;
         n = min ssize (size_t_of (int (rd_bytes reader) - int (rd_offset reader)))
     in if rd_elem reader * rd_offset reader + n \<le> rd_bytes reader
        then Inr (s\<lparr>out_m := out_m s @ [(pos, n)]\<rparr>)
        else Inl undefined_behaviour)"

text \<open>\<^verbatim>\<open>for (auto sat_sector : msat_) write_sector(sector_reader, sat_sector);\<close>\<close>

fun write_sectors :: "binary_reader \<Rightarrow> sector_chain \<Rightarrow> compound_document \<Rightarrow> error + compound_document" where
  "write_sectors reader [] s = Inr s"
| "write_sectors reader (id' # ids) s = ebind (write_sector reader id' s) (write_sectors reader ids)"

definition write_sat :: "compound_document \<Rightarrow> error + compound_document" where
  "write_sat s =
     write_sectors \<lparr>rd_elem = sizeof_sector_id, rd_count = length (sat_m s), rd_offset = 0\<rparr> (msat_m s) s"

section \<open>Allocation of sectors\<close>

text \<open>\<open>std::find\<close> over a vector, as the index of the first match, or the size when there is none.\<close>

fun std_find :: "'a list \<Rightarrow> 'a \<Rightarrow> nat" where
  "std_find [] v = 0"
| "std_find (x # xs) v = (if x = v then 0 else Suc (std_find xs v))"

text \<open>\<open>header_.msat\<close> is a \<open>std::array\<close> of 109 sector IDs, indexed without a check.\<close>

definition array_set :: "'a list \<Rightarrow> nat \<Rightarrow> 'a \<Rightarrow> error + 'a list" where
  "array_set a i x = (if i < length a then Inr (a[i := x]) else Inl undefined_behaviour)"

text \<open>
  The branch of \<open>allocate_sector\<close> taken when the SAT holds no free slot;
  \<open>sectors_per_sector\<close> is \<open>sector_size() / sizeof(sector_id)\<close>.
\<close>

definition allocate_sector_grow :: "nat \<Rightarrow> compound_document \<Rightarrow> error + compound_document" where
  "allocate_sector_grow sectors_per_sector s =
     (let next_msat_index = num_msat_sectors (header_m s)
      in ebind (to_int32 (length (sat_m s))) (\<lambda>new_sat_sector_id.
         ebind (push_back sizeof_sector_id (msat_m s) new_sat_sector_id) (\<lambda>m.
         let s1 = s\<lparr>msat_m := m\<rparr>
         in ebind (array_set (msat (header_m s1)) (length (msat_m s1) - 1) new_sat_sector_id) (\<lambda>a.
            let s2 = s1\<lparr>header_m := (header_m s1)\<lparr>msat := a\<rparr>\<rparr>
            in ebind (resize sizeof_sector_id (sat_m s2)
                        ((length (sat_m s2) + sectors_per_sector) mod 2 ^ 64) FreeSector) (\<lambda>t0.
               let s3 = s2\<lparr>sat_m := t0\<rparr>
               in ebind (vec_set (sat_m s3) new_sat_sector_id SATSector) (\<lambda>t.
                  let s4 = s3\<lparr>sat_m := t\<rparr>;
                      sat_reader = \<lparr>rd_elem = sizeof_sector_id, rd_count = length (sat_m s4),
                        rd_offset = (next_msat_index * sectors_per_sector) mod 2 ^ 64\<rparr>
                  in write_sector sat_reader new_sat_sector_id s4))))))"

definition allocate_sector :: "compound_document \<Rightarrow> error + (sector_id \<times> compound_document)" where
  "allocate_sector s =
     ebind (sector_size s) (\<lambda>ssize.
     let sectors_per_sector = ssize div sizeof_sector_id
     in ebind (if std_find (sat_m s) FreeSector = length (sat_m s)
               then allocate_sector_grow sectors_per_sector s else Inr s) (\<lambda>s1.
        ebind (to_int32 (std_find (sat_m s1) FreeSector)) (\<lambda>next_free.
        ebind (vec_set (sat_m s1) next_free EndOfChain) (\<lambda>t.
        ebind (write_sat (s1\<lparr>sat_m := t\<rparr>)) (\<lambda>s2.
        ebind (sector_size s2) (\<lambda>ssize2.
        ebind (resize 1 [] ssize2 (0 :: nat)) (\<lambda>empty_sector.
        let empty_sector_reader = \<lparr>rd_elem = 1, rd_count = length empty_sector, rd_offset = 0\<rparr>
        in ebind (write_sector empty_sector_reader next_free s2) (\<lambda>s3.
           Inr (next_free, s3)))))))))"

text \<open>
  \<^verbatim>\<open>for (auto i = std::size_t(1); i < count; ++i)
  { chain.push_back(current); auto next = allocate_sector(); sat_[current] = next; current = next; }
  return chain;\<close>
  The first argument is the number of iterations left.
\<close>

fun allocate_sectors_loop ::
  "nat \<Rightarrow> sector_chain \<Rightarrow> sector_id \<Rightarrow> compound_document \<Rightarrow> error + (sector_chain \<times> compound_document)" where
  "allocate_sectors_loop 0 chain current s = Inr (chain, s)"
| "allocate_sectors_loop (Suc k) chain current s =
     ebind (push_back sizeof_sector_id chain current) (\<lambda>chain1.
     ebind (allocate_sector s) (\<lambda>(nxt, s1).
     ebind (vec_set (sat_m s1) current nxt) (\<lambda>t.
       allocate_sectors_loop k chain1 nxt (s1\<lparr>sat_m := t\<rparr>))))"

definition allocate_sectors :: "nat \<Rightarrow> compound_document \<Rightarrow> error + (sector_chain \<times> compound_document)" where
  "allocate_sectors count s =
     (if count = 0 then Inr ([], s)
      else ebind (allocate_sector s) (\<lambda>(current, s1). allocate_sectors_loop (count - 1) [] current s1))"

section \<open>Directory entries on the backing stream\<close>

text \<open>
  The position that \<open>write_entry(id)\<close> hands to \<open>out_->seekp\<close>:
  \<^verbatim>\<open>const auto directory_sector = directory_chain[id / entries_per_sector];
  const auto offset = sector_size() * directory_sector
      + ((id % entries_per_sector) * sizeof(compound_document_entry));
  out_->seekp(offset, std::ios::beg);\<close>
\<close>

definition entry_offset :: "directory_id \<Rightarrow> compound_document \<Rightarrow> (error + nat) option" where
  "entry_offset id' s =
     obind (follow_chain (directory_start (header_m s)) (sat_m s)) (\<lambda>directory_chain.
     obind (Some (sector_size s)) (\<lambda>ssize.
     let entries_per_sector = ssize div sizeof_entry
     in if entries_per_sector = 0 then Some (Inl undefined_behaviour)
        else if size_t_of id' div entries_per_sector < length directory_chain
        then let directory_sector = directory_chain ! (size_t_of id' div entries_per_sector)
             in Some (Inr ((ssize * size_t_of directory_sector
                  + (size_t_of id' mod entries_per_sector) * sizeof_entry) mod 2 ^ 64))
        else Some (Inl undefined_behaviour)))"

definition write_entry_position :: "directory_id \<Rightarrow> compound_document \<Rightarrow> (error + nat) option" where
  "write_entry_position id' s = entry_offset id' s"

text \<open>
  The position that \<open>read_entry(id)\<close> hands to \<open>in_->seekg\<close>, with the same \<open>offset\<close>:
  \<^verbatim>\<open>in_->seekg(sector_data_start() + offset, std::ios::beg);\<close>
\<close>

definition read_entry_position :: "directory_id \<Rightarrow> compound_document \<Rightarrow> (error + nat) option" where
  "read_entry_position id' s =
     obind (entry_offset id' s) (\<lambda>offset. Some (Inr ((sector_data_start + offset) mod 2 ^ 64)))"

definition write_entry :: "directory_id \<Rightarrow> compound_document \<Rightarrow> (error + compound_document) option" where
  "write_entry id' s =
     obind (write_entry_position id' s) (\<lambda>offset.
     case vec_get (entries_m s) id' of
       Inl e \<Rightarrow> Some (Inl e)
     | Inr entry \<Rightarrow> Some (Inr (s\<lparr>out_m := out_m s @ [(offset, sizeof_entry)]\<rparr>)))"

text \<open>
  Modelled from the spec: a default-constructed \<open>compound_document_entry\<close> (the struct is
  declared in the header file): no name, no left, right or child entry, an empty chain.
\<close>

definition default_entry :: compound_document_entry where
  "default_entry = \<lparr>name_e = [], type_e = Empty, color_e = Black, prev_e = End, next_e = End,
     child_e = End, start_e = EndOfChain, size_e = 0\<rparr>"

text \<open>
  \<^verbatim>\<open>for (auto i = std::size_t(0); i < entries_per_sector; ++i)
  { ...; entries_.push_back(empty_entry); write_entry(entry_id + directory_id(i)); }\<close>
  The first argument is the number of iterations left, the second is \<open>i\<close>.
\<close>

fun next_empty_entry_fill ::
  "nat \<Rightarrow> nat \<Rightarrow> directory_id \<Rightarrow> compound_document \<Rightarrow> (error + compound_document) option" where
  "next_empty_entry_fill 0 i entry_id s = Some (Inr s)"
| "next_empty_entry_fill (Suc k) i entry_id s =
     (let empty_entry = default_entry\<lparr>type_e := Empty\<rparr>
      in obind (Some (push_back sizeof_entry (entries_m s) empty_entry)) (\<lambda>es.
         obind (Some (ebind (to_int32 i) (int32_add entry_id))) (\<lambda>id'.
         obind (write_entry id' (s\<lparr>entries_m := es\<rparr>))
           (next_empty_entry_fill k (Suc i) entry_id))))"

text \<open>
  The scan of \<open>next_empty_entry\<close> runs \<open>entry_id\<close> from 0 while it is below
  \<open>directory_id(entries_.size())\<close> and returns the first entry of type \<open>Empty\<close>; without one,
  \<open>entry_id\<close> ends at the size.
\<close>

definition next_empty_entry :: "compound_document \<Rightarrow> (error + (directory_id \<times> compound_document)) option" where
  "next_empty_entry s =
     obind (Some (to_int32 (length (entries_m s)))) (\<lambda>bound.
     let entry_id = std_find (map type_e (entries_m s)) Empty
     in if int entry_id < bound then Some (Inr (int entry_id, s))
        else obind (Some (sector_size s)) (\<lambda>ssize.
             let entries_per_sector = ssize div sizeof_entry
             in obind (Some (allocate_sector s)) (\<lambda>(new_sector, s1).
                obind (next_empty_entry_fill entries_per_sector 0 bound s1) (\<lambda>s2.
                Some (Inr (bound, s2))))))"

section \<open>The red-black tree of a storage\<close>

text \<open>
  \<open>compare_keys\<close> lowers both strings with \<open>std::ctype<char>::tolower\<close> of the default
  locale, which maps \<open>A\<close>..\<open>Z\<close> to \<open>a\<close>..\<open>z\<close>, and returns \<open>std::string::compare\<close>:
  negative, zero or positive by the first differing character (as unsigned) or else by the
  lengths. The source uses the sign only.
\<close>

definition to_lower_char :: "char \<Rightarrow> char" where
  "to_lower_char c = (let n = (of_char c :: nat) in if 65 \<le> n \<and> n \<le> 90 then char_of (n + 32) else c)"

definition to_lower :: "string \<Rightarrow> string" where
  "to_lower str = map to_lower_char str"

fun string_compare :: "string \<Rightarrow> string \<Rightarrow> int" where
  "string_compare [] [] = 0"
| "string_compare [] (y # ys) = -1"
| "string_compare (x # xs) [] = 1"
| "string_compare (x # xs) (y # ys) =
     (if (of_char x :: nat) < of_char y then -1
      else if (of_char y :: nat) < of_char x then 1
      else string_compare xs ys)"

definition compare_keys :: "string \<Rightarrow> string \<Rightarrow> int" where
  "compare_keys left right = string_compare (to_lower left) (to_lower right)"

text \<open>
  The accessors \<open>tree_left\<close>, \<open>tree_right\<close>, \<open>tree_child\<close>, \<open>tree_color\<close> return a reference
  into \<open>entries_[id]\<close>, unchecked; each is a reader and a writer here. \<open>tree_parent\<close> is a
  reference into the side table \<open>parent_\<close>.
\<close>

definition entry_get :: "(compound_document_entry \<Rightarrow> 'a) \<Rightarrow> directory_id \<Rightarrow> compound_document \<Rightarrow> error + 'a" where
  "entry_get field id' s = ebind (vec_get (entries_m s) id') (\<lambda>e. Inr (field e))"

definition entry_set ::
  "(compound_document_entry \<Rightarrow> compound_document_entry) \<Rightarrow> directory_id \<Rightarrow> compound_document
     \<Rightarrow> error + compound_document" where
  "entry_set upd id' s =
     ebind (vec_get (entries_m s) id') (\<lambda>e. Inr (s\<lparr>entries_m := (entries_m s)[nat id' := upd e]\<rparr>))"

definition tree_left :: "directory_id \<Rightarrow> compound_document \<Rightarrow> error + directory_id" where
  "tree_left = entry_get prev_e"

definition tree_right :: "directory_id \<Rightarrow> compound_document \<Rightarrow> error + directory_id" where
  "tree_right = entry_get next_e"

definition tree_child :: "directory_id \<Rightarrow> compound_document \<Rightarrow> error + directory_id" where
  "tree_child = entry_get child_e"

definition tree_color :: "directory_id \<Rightarrow> compound_document \<Rightarrow> error + entry_color" where
  "tree_color = entry_get color_e"

definition tree_key :: "directory_id \<Rightarrow> compound_document \<Rightarrow> error + string" where
  "tree_key = entry_get name_e"

definition tree_parent :: "directory_id \<Rightarrow> compound_document \<Rightarrow> directory_id" where
  "tree_parent id' s = map_at (parent_m s) id'"

definition tree_root :: "directory_id \<Rightarrow> compound_document \<Rightarrow> error + directory_id" where
  "tree_root id' s = tree_child (map_at (parent_storage_m s) id') s"

definition set_tree_left :: "directory_id \<Rightarrow> directory_id \<Rightarrow> compound_document \<Rightarrow> error + compound_document" where
  "set_tree_left id' v = entry_set (\<lambda>e. e\<lparr>prev_e := v\<rparr>) id'"

definition set_tree_right :: "directory_id \<Rightarrow> directory_id \<Rightarrow> compound_document \<Rightarrow> error + compound_document" where
  "set_tree_right id' v = entry_set (\<lambda>e. e\<lparr>next_e := v\<rparr>) id'"

definition set_tree_child :: "directory_id \<Rightarrow> directory_id \<Rightarrow> compound_document \<Rightarrow> error + compound_document" where
  "set_tree_child id' v = entry_set (\<lambda>e. e\<lparr>child_e := v\<rparr>) id'"

definition set_tree_color :: "directory_id \<Rightarrow> entry_color \<Rightarrow> compound_document \<Rightarrow> error + compound_document" where
  "set_tree_color id' v = entry_set (\<lambda>e. e\<lparr>color_e := v\<rparr>) id'"

definition set_tree_parent :: "directory_id \<Rightarrow> directory_id \<Rightarrow> compound_document \<Rightarrow> compound_document" where
  "set_tree_parent id' v s = s\<lparr>parent_m := (parent_m s)(id' \<mapsto> v)\<rparr>"

definition set_tree_root :: "directory_id \<Rightarrow> directory_id \<Rightarrow> compound_document \<Rightarrow> error + compound_document" where
  "set_tree_root id' v s = set_tree_child (map_at (parent_storage_m s) id') v s"

text \<open>
  The part of both rotations that links the parent of the rotated node to the node \<open>y\<close>
  that takes its place:
  \<^verbatim>\<open>if (tree_parent(x) == End) tree_root(x) = y;
  else if (x == tree_left(tree_parent(x))) tree_left(tree_parent(x)) = y;
  else tree_right(tree_parent(x)) = y;\<close>
\<close>

definition tree_replace_child :: "directory_id \<Rightarrow> directory_id \<Rightarrow> compound_document \<Rightarrow> error + compound_document" where
  "tree_replace_child x y s =
     (if tree_parent x s = End then set_tree_root x y s
      else ebind (tree_left (tree_parent x s) s) (\<lambda>l.
           if x = l then set_tree_left (tree_parent x s) y s
           else set_tree_right (tree_parent x s) y s))"

definition tree_rotate_left :: "directory_id \<Rightarrow> compound_document \<Rightarrow> error + compound_document" where
  "tree_rotate_left x s =
     ebind (tree_right x s) (\<lambda>y.
     ebind (tree_left y s) (\<lambda>yl.
     ebind (set_tree_right x yl s) (\<lambda>s1.
     ebind (tree_left y s1) (\<lambda>yl1.
     let s2 = (if yl1 \<noteq> End then set_tree_parent yl1 x s1 else s1);
         s3 = set_tree_parent y (tree_parent x s2) s2
     in ebind (tree_replace_child x y s3) (\<lambda>s4.
        ebind (set_tree_left y x s4) (\<lambda>s5.
        Inr (set_tree_parent x y s5)))))))"

definition tree_rotate_right :: "directory_id \<Rightarrow> compound_document \<Rightarrow> error + compound_document" where
  "tree_rotate_right y s =
     ebind (tree_left y s) (\<lambda>x.
     ebind (tree_right x s) (\<lambda>xr.
     ebind (set_tree_left y xr s) (\<lambda>s1.
     ebind (tree_right x s1) (\<lambda>xr1.
     let s2 = (if xr1 \<noteq> End then set_tree_parent xr1 y s1 else s1);
         s3 = set_tree_parent x (tree_parent y s2) s2
     in ebind (tree_replace_child y x s3) (\<lambda>s4.
        ebind (set_tree_right x y s4) (\<lambda>s5.
        Inr (set_tree_parent y x s5)))))))"

text \<open>
  The loop of \<open>tree_insert_fixup\<close>. Its condition is
  \<^verbatim>\<open>x != tree_root(x) && tree_color(tree_parent(x)) == entry_color::Red\<close>.
\<close>

definition tree_insert_fixup_cond :: "directory_id \<Rightarrow> compound_document \<Rightarrow> error + bool" where
  "tree_insert_fixup_cond x s =
     ebind (tree_root x s) (\<lambda>r.
     if x \<noteq> r then ebind (tree_color (tree_parent x s) s) (\<lambda>c. Inr (c = Red)) else Inr False)"

text \<open>
  The branch of the loop body where the parent of \<open>x\<close> is the left child of its parent:
  \<open>y\<close> is the uncle; case 1 recolours and moves \<open>x\<close> two levels up, cases 2 and 3 rotate.
\<close>

definition tree_insert_fixup_left :: "directory_id \<Rightarrow> compound_document \<Rightarrow> error + (directory_id \<times> compound_document)" where
  "tree_insert_fixup_left x s =
     ebind (tree_right (tree_parent (tree_parent x s) s) s) (\<lambda>y.
     ebind (if y \<ge> 0 then ebind (tree_color y s) (\<lambda>c. Inr (c = Red)) else Inr False) (\<lambda>red.
     if red then
       ebind (set_tree_color (tree_parent x s) Black s) (\<lambda>s1.
       ebind (set_tree_color y Black s1) (\<lambda>s2.
       ebind (set_tree_color (tree_parent (tree_parent x s2) s2) Red s2) (\<lambda>s3.
       Inr (tree_parent (tree_parent x s3) s3, s3))))
     else
       ebind (tree_right (tree_parent x s) s) (\<lambda>pr.
       ebind (if x = pr then ebind (tree_rotate_left (tree_parent x s) s) (\<lambda>s1. Inr (tree_parent x s, s1))
              else Inr (x, s)) (\<lambda>(x1, s1).
       ebind (set_tree_color (tree_parent x1 s1) Black s1) (\<lambda>s2.
       ebind (set_tree_color (tree_parent (tree_parent x1 s2) s2) Red s2) (\<lambda>s3.
       ebind (tree_rotate_right (tree_parent (tree_parent x1 s3) s3) s3) (\<lambda>s4.
       Inr (x1, s4))))))))"

text \<open>The other branch: \<^verbatim>\<open>same as above with left and right switched\<close>.\<close>

definition tree_insert_fixup_right :: "directory_id \<Rightarrow> compound_document \<Rightarrow> error + (directory_id \<times> compound_document)" where
  "tree_insert_fixup_right x s =
     ebind (tree_left (tree_parent (tree_parent x s) s) s) (\<lambda>y.
     ebind (if y \<ge> 0 then ebind (tree_color y s) (\<lambda>c. Inr (c = Red)) else Inr False) (\<lambda>red.
     if red then
       ebind (set_tree_color (tree_parent x s) Black s) (\<lambda>s1.
       ebind (set_tree_color y Black s1) (\<lambda>s2.
       ebind (set_tree_color (tree_parent (tree_parent x s2) s2) Red s2) (\<lambda>s3.
       Inr (tree_parent (tree_parent x s3) s3, s3))))
     else
       ebind (tree_left (tree_parent x s) s) (\<lambda>pl.
       ebind (if x = pl then ebind (tree_rotate_right (tree_parent x s) s) (\<lambda>s1. Inr (tree_parent x s, s1))
              else Inr (x, s)) (\<lambda>(x1, s1).
       ebind (set_tree_color (tree_parent x1 s1) Black s1) (\<lambda>s2.
       ebind (set_tree_color (tree_parent (tree_parent x1 s2) s2) Red s2) (\<lambda>s3.
       ebind (tree_rotate_left (tree_parent (tree_parent x1 s3) s3) s3) (\<lambda>s4.
       Inr (x1, s4))))))))"

definition tree_insert_fixup_body :: "directory_id \<Rightarrow> compound_document \<Rightarrow> error + (directory_id \<times> compound_document)" where
  "tree_insert_fixup_body x s =
     ebind (tree_left (tree_parent (tree_parent x s) s) s) (\<lambda>gl.
     if tree_parent x s = gl then tree_insert_fixup_left x s else tree_insert_fixup_right x s)"

partial_function (option) tree_insert_fixup_loop ::
  "directory_id \<Rightarrow> compound_document \<Rightarrow> (error + (directory_id \<times> compound_document)) option" where
  "tree_insert_fixup_loop x s =
     (case tree_insert_fixup_cond x s of
        Inl e \<Rightarrow> Some (Inl e)
      | Inr continue \<Rightarrow>
          if continue then
            (case tree_insert_fixup_body x s of
               Inl e \<Rightarrow> Some (Inl e)
             | Inr (x1, s1) \<Rightarrow> tree_insert_fixup_loop x1 s1)
          else Some (Inr (x, s)))"

declare tree_insert_fixup_loop.simps [code]

definition tree_insert_fixup :: "directory_id \<Rightarrow> compound_document \<Rightarrow> (error + compound_document) option" where
  "tree_insert_fixup x s =
     obind (Some (set_tree_color x Red s)) (\<lambda>s1.
     obind (tree_insert_fixup_loop x s1) (\<lambda>(x1, s2).
     Some (ebind (tree_root x1 s2) (\<lambda>r. set_tree_color r Black s2))))"

text \<open>
  The descent of \<open>tree_insert\<close>:
  \<^verbatim>\<open>while (x >= 0) { y = x;
    if (compare_keys(tree_key(new_id), tree_key(x)) > 0) x = tree_right(x);
    else x = tree_left(x); }\<close>
  It returns \<open>y\<close>.
\<close>

partial_function (option) tree_insert_descend ::
  "directory_id \<Rightarrow> directory_id \<Rightarrow> directory_id \<Rightarrow> compound_document \<Rightarrow> (error + directory_id) option" where
  "tree_insert_descend new_id x y s =
     (if x \<ge> 0 then
        (case ebind (tree_key new_id s) (\<lambda>kn. ebind (tree_key x s) (\<lambda>kx.
                if compare_keys kn kx > 0 then tree_right x s else tree_left x s)) of
           Inl e \<Rightarrow> Some (Inl e)
         | Inr x1 \<Rightarrow> tree_insert_descend new_id x1 x s)
      else Some (Inr y))"

declare tree_insert_descend.simps [code]

definition tree_insert :: "directory_id \<Rightarrow> directory_id \<Rightarrow> compound_document \<Rightarrow> (error + compound_document) option" where
  "tree_insert new_id storage_id s =
     (let s0 = s\<lparr>parent_storage_m := (parent_storage_m s)(new_id \<mapsto> storage_id)\<rparr>
      in obind (Some (set_tree_left new_id End s0)) (\<lambda>s1.
         obind (Some (set_tree_right new_id End s1)) (\<lambda>s2.
         obind (Some (tree_root new_id s2)) (\<lambda>r.
         if r = End then
           Some (ebind (if new_id \<noteq> 0 then set_tree_root new_id new_id s2 else Inr s2) (\<lambda>s3.
                 ebind (set_tree_color new_id Black s3) (\<lambda>s4.
                 Inr (set_tree_parent new_id End s4))))
         else
           obind (tree_insert_descend new_id r End s2) (\<lambda>y.
           let s3 = set_tree_parent new_id y s2
           in obind (Some (ebind (tree_key new_id s3) (\<lambda>kn. ebind (tree_key y s3) (\<lambda>ky.
                       if compare_keys kn ky > 0 then set_tree_right y new_id s3
                       else set_tree_left y new_id s3)))) (\<lambda>s4.
              tree_insert_fixup new_id s4))))))"

section \<open>Names, paths and the stream facade\<close>

definition join_path :: "string list \<Rightarrow> string" where
  "join_path path = concat (map (\<lambda>part. part @ ''/'') path)"

text \<open>
  \<^verbatim>\<open>while (storage_id > 0)
  { storage_id = parent_storage_[storage_id]; result.push_back(entries_[storage_id].name()); }\<close>
\<close>

partial_function (option) tree_path_loop ::
  "compound_document \<Rightarrow> directory_id \<Rightarrow> string list \<Rightarrow> (error + string list) option" where
  "tree_path_loop s storage_id result =
     (if storage_id > 0 then
        (let storage_id1 = map_at (parent_storage_m s) storage_id
         in case ebind (vec_get (entries_m s) storage_id1) (\<lambda>entry.
                   push_back sizeof_string result (name_e entry)) of
              Inl e \<Rightarrow> Some (Inl e)
            | Inr result1 \<Rightarrow> tree_path_loop s storage_id1 result1)
      else Some (Inr result))"

declare tree_path_loop.simps [code]

definition tree_path :: "directory_id \<Rightarrow> compound_document \<Rightarrow> (error + string) option" where
  "tree_path id' s =
     obind (tree_path_loop s (map_at (parent_storage_m s) id') []) (\<lambda>result.
     Some (ebind (vec_get (entries_m s) id') (\<lambda>entry.
       Inr (''/'' @ join_path result @ name_e entry))))"

text \<open>
  The loop of \<open>find_entry\<close> over \<open>entries_\<close>, with the running \<open>entry_id\<close>:
  \<^verbatim>\<open>if (entry.type == type && tree_path(entry_id) == name) return entry_id;
  ++entry_id;\<close>
\<close>

fun find_entry_loop ::
  "string \<Rightarrow> entry_type \<Rightarrow> compound_document \<Rightarrow> directory_id \<Rightarrow> compound_document_entry list
     \<Rightarrow> (error + directory_id) option" where
  "find_entry_loop name type s entry_id [] = Some (Inr End)"
| "find_entry_loop name type s entry_id (entry # rest) =
     obind (if type_e entry = type then obind (tree_path entry_id s) (\<lambda>path. Some (Inr (path = name)))
            else Some (Inr False)) (\<lambda>found.
     if found then Some (Inr entry_id)
     else obind (Some (int32_add entry_id 1)) (\<lambda>entry_id1.
          find_entry_loop name type s entry_id1 rest))"

definition find_entry :: "string \<Rightarrow> entry_type \<Rightarrow> compound_document \<Rightarrow> (error + directory_id) option" where
  "find_entry name type s =
     (if type = RootStorage \<and> (name = ''/'' \<or> name = ''/Root Entry'') then Some (Inr 0)
      else find_entry_loop name type s 0 (entries_m s))"

definition contains_entry :: "string \<Rightarrow> entry_type \<Rightarrow> compound_document \<Rightarrow> (error + bool) option" where
  "contains_entry path type s = obind (find_entry path type s) (\<lambda>entry_id. Some (Inr (entry_id \<ge> 0)))"

text \<open>
  Modelled from the spec: the setter \<open>compound_document_entry::name(new_name)\<close>, which the
  header file declares. The spec has the name as a ``case-preserved UTF-16 string,
  \<open>\<le>\<close> 31 code units'', and a ``name longer than 31 UTF-16 units'' as a Naming error: a
  name of at most 31 units is stored as given, a longer one raises the error. Names are
  taken to be ASCII, one unit for each character.
\<close>

definition entry_name :: "string \<Rightarrow> compound_document_entry \<Rightarrow> error + compound_document_entry" where
  "entry_name new_name entry =
     (if length new_name \<le> 31 then Inr (entry\<lparr>name_e := new_name\<rparr>) else Inl naming_error)"

text \<open>
  \<^verbatim>\<open>auto &entry = entries_[entry_id]; entry.name(name); entry.type = type;\<close>
\<close>

definition insert_entry ::
  "string \<Rightarrow> entry_type \<Rightarrow> compound_document \<Rightarrow> (error + (directory_id \<times> compound_document)) option" where
  "insert_entry name type s =
     obind (next_empty_entry s) (\<lambda>(entry_id, s1).
     obind (Some (vec_get (entries_m s1) entry_id)) (\<lambda>entry0.
     obind (Some (entry_name name entry0)) (\<lambda>entry1.
     let s2 = s1\<lparr>entries_m := (entries_m s1)[nat entry_id := entry1\<lparr>type_e := type\<rparr>]\<rparr>
     in obind (write_entry entry_id s2) (\<lambda>s3.
        obind (tree_insert entry_id 0 s3) (\<lambda>s4.
        Some (Inr (entry_id, s4)))))))"

text \<open>\<open>entries_.at(entry_id)\<close> throws \<open>std::out_of_range\<close> outside the vector.\<close>

definition entries_at :: "directory_id \<Rightarrow> compound_document \<Rightarrow> error + compound_document_entry" where
  "entries_at entry_id s =
     (if size_t_of entry_id < length (entries_m s) then Inr (entries_m s ! size_t_of entry_id)
      else Inl out_of_range)"

text \<open>
  Both stream buffers are constructed from a string,
  \<^verbatim>\<open>data_(filename.begin(), filename.end()), position_(0)\<close>, and both functions hand
  them the \<open>name\<close> of the stream. The returned stream is the member \<open>stream_in_\<close>
  (\<open>stream_out_\<close>) of the document on the new buffer.
\<close>

definition new_streambuf :: "string \<Rightarrow> streambuf" where
  "new_streambuf filename = \<lparr>data_b = filename, position_b = 0\<rparr>"

definition open_read_stream :: "string \<Rightarrow> compound_document \<Rightarrow> (error + compound_document) option" where
  "open_read_stream name s =
     obind (find_entry name UserStream s) (\<lambda>entry_id.
     Some (ebind (entries_at entry_id s) (\<lambda>entry.
       Inr (s\<lparr>stream_in_buffer_m := Some (new_streambuf name)\<rparr>))))"

definition open_write_stream :: "string \<Rightarrow> compound_document \<Rightarrow> (error + compound_document) option" where
  "open_write_stream name s =
     obind (contains_entry name UserStream s) (\<lambda>found.
     obind (if found then obind (find_entry name UserStream s) (\<lambda>entry_id. Some (Inr (entry_id, s)))
            else insert_entry name UserStream s) (\<lambda>(entry_id, s1).
     Some (ebind (entries_at entry_id s1) (\<lambda>entry.
       Inr (s1\<lparr>stream_out_buffer_m := Some (new_streambuf name)\<rparr>)))))"

text \<open>
  Reading from \<open>compound_document_istreambuf\<close>: \<open>uflow\<close> returns the character at
  \<open>position_\<close> and advances, or end-of-file at the end of \<open>data_\<close>.
\<close>

definition uflow :: "streambuf \<Rightarrow> char option \<times> streambuf" where
  "uflow b =
     (if position_b b = length (data_b b) then (None, b)
      else (Some (data_b b ! position_b b), b\<lparr>position_b := position_b b + 1\<rparr>))"

text \<open>The characters a reader gets from the buffer until end-of-file; the fuel bounds the calls.\<close>

fun read_to_eof :: "nat \<Rightarrow> streambuf \<Rightarrow> string" where
  "read_to_eof 0 b = []"
| "read_to_eof (Suc n) b = (case uflow b of (None, b1) \<Rightarrow> [] | (Some c, b1) \<Rightarrow> c # read_to_eof n b1)"

section \<open>Walks through an allocation table\<close>

text \<open>
  \<open>chain_from table c vs l\<close>: starting at \<open>c\<close> and following \<open>table\<close>, one visits the
  sectors \<open>vs\<close>, each of them a valid index of \<open>table\<close>, and arrives at \<open>l\<close>.
\<close>

inductive chain_from :: "sector_chain \<Rightarrow> sector_id \<Rightarrow> sector_chain \<Rightarrow> sector_id \<Rightarrow> bool" where
  chain_from_stop: "chain_from table c [] c"
| chain_from_step: "0 \<le> c \<Longrightarrow> nat c < length table \<Longrightarrow> chain_from table (table ! nat c) vs l
     \<Longrightarrow> chain_from table c (c # vs) l"

section \<open>Example documents\<close>

text \<open>
  A document with 512-byte sectors whose only SAT page is sector 0 and whose directory is
  sector 1: the root entry and three empty entries.
\<close>

definition example_header :: compound_document_header where
  "example_header = \<lparr>sector_size_power = 9, short_sector_size_power = 6, num_msat_sectors = 1,
     directory_start = 1, ssat_start = EndOfChain, num_short_sectors = 0,
     extra_msat_start = EndOfChain, msat = 0 # replicate 108 FreeSector\<rparr>"

definition root_entry :: compound_document_entry where
  "root_entry = default_entry\<lparr>name_e := ''Root Entry'', type_e := RootStorage\<rparr>"

definition example_document :: compound_document where
  "example_document = \<lparr>header_m = example_header, msat_m = [0],
     sat_m = SATSector # EndOfChain # replicate 126 FreeSector, ssat_m = [],
     entries_m = [root_entry, default_entry, default_entry, default_entry],
     parent_storage_m = Map.empty, parent_m = Map.empty, out_m = [],
     stream_in_buffer_m = None, stream_out_buffer_m = None\<rparr>"

text \<open>
  The same document with a full directory sector: the empty streams \<open>A\<close> and \<open>B\<close> and
  the storage \<open>C\<close> under the root storage, \<open>B\<close> at the root of their tree.
\<close>

definition stream_entry :: "string \<Rightarrow> entry_color \<Rightarrow> directory_id \<Rightarrow> directory_id \<Rightarrow> compound_document_entry" where
  "stream_entry n c l r = default_entry\<lparr>name_e := n, type_e := UserStream, color_e := c, prev_e := l, next_e := r\<rparr>"

definition full_document :: compound_document where
  "full_document = example_document\<lparr>
     entries_m := [root_entry\<lparr>child_e := 2\<rparr>, stream_entry ''A'' Red End End,
       stream_entry ''B'' Black 1 3, (stream_entry ''C'' Red End End)\<lparr>type_e := UserStorage\<rparr>],
     parent_storage_m := [1 \<mapsto> 0, 2 \<mapsto> 0, 3 \<mapsto> 0],
     parent_m := [1 \<mapsto> 2, 2 \<mapsto> End, 3 \<mapsto> 2]\<rparr>"

text \<open>The example document after the stream \<open>/Data\<close> has been inserted.\<close>

definition data_document :: compound_document where
  "data_document = example_document\<lparr>
     entries_m := [root_entry\<lparr>child_e := 1\<rparr>, stream_entry ''/Data'' Black End End, default_entry, default_entry],
     parent_storage_m := [1 \<mapsto> 0], parent_m := [1 \<mapsto> End], out_m := [(640, 128)]\<rparr>"

text \<open>The example document with no free slot left in its SAT page.\<close>

definition full_sat_document :: compound_document where
  "full_sat_document = example_document\<lparr>sat_m := SATSector # replicate 127 EndOfChain\<rparr>"

text \<open>
  A document whose SAT has 109 pages, the sectors 0 to 108, all of its slots in use: the
  109 inline slots of the header are taken.
\<close>

definition msat_full_document :: compound_document where
  "msat_full_document = example_document\<lparr>
     header_m := example_header\<lparr>num_msat_sectors := 109, directory_start := 109, msat := map int [0..<109]\<rparr>,
     msat_m := map int [0..<109],
     sat_m := replicate 109 SATSector @ replicate (109 * 128 - 109) EndOfChain\<rparr>"

text \<open>
  A document with the storage \<open>C\<close> (entry 3) under the root storage and the empty stream
  \<open>A\<close> (entry 1) inside \<open>C\<close>: the path of the stream is \<open>/C/A\<close>.
\<close>

definition nested_document :: compound_document where
  "nested_document = example_document\<lparr>
     entries_m := [root_entry\<lparr>child_e := 3\<rparr>, stream_entry ''A'' Black End End, default_entry,
       (stream_entry ''C'' Black End End)\<lparr>type_e := UserStorage, child_e := 1\<rparr>],
     parent_storage_m := [3 \<mapsto> 0, 1 \<mapsto> 3],
     parent_m := [3 \<mapsto> End, 1 \<mapsto> End]\<rparr>"

section \<open>What the directory lists\<close>

text \<open>
  The names and types of the entries, with the table of parent storages; and the number
  of entries of a type.
\<close>

definition directory_view :: "compound_document \<Rightarrow> (string \<times> entry_type) list \<times> (directory_id \<rightharpoonup> directory_id)" where
  "directory_view s = (map (\<lambda>e. (name_e e, type_e e)) (entries_m s), parent_storage_m s)"

definition count_type :: "entry_type \<Rightarrow> compound_document \<Rightarrow> nat" where
  "count_type t s = length (filter (\<lambda>e. type_e e = t) (entries_m s))"

section \<open>Auxiliary facts\<close>

lemma ebind_Inr: "ebind m f = Inr y \<longleftrightarrow> (\<exists>x. m = Inr x \<and> f x = Inr y)"
  by (cases m) (simp_all add: ebind_def)

lemma obind_Inr: "obind m f = Some (Inr y) \<longleftrightarrow> (\<exists>x. m = Some (Inr x) \<and> f x = Some (Inr y))"
  by (auto simp: obind_def split: option.splits sum.splits)

lemma std_find_le: "std_find xs v \<le> length xs"
  by (induction xs) auto

lemma std_find_absent: "std_find xs v = length xs \<longleftrightarrow> v \<notin> set xs"
  using std_find_le [of _ v] by (induction xs) (auto simp: not_less_eq_eq)

lemma std_find_append_absent: "v \<notin> set xs \<Longrightarrow> std_find (xs @ ys) v = length xs + std_find ys v"
  by (induction xs) auto

lemma std_find_found: "std_find xs v < length xs \<Longrightarrow> xs ! std_find xs v = v"
  by (induction xs) (auto split: if_splits)

lemma replicate_update_first:
  "0 < k \<Longrightarrow> (xs @ replicate k x)[length xs := y] = xs @ y # replicate (k - 1) x"
  by (cases k) (simp_all add: list_update_append)

lemma filter_length_update:
  "i < length xs \<Longrightarrow> \<not> P (xs ! i) \<Longrightarrow>
     length (filter P (xs[i := y])) = length (filter P xs) + (if P y then 1 else 0)"
proof (induction xs arbitrary: i)
  case Nil
  then show ?case by simp
next
  case (Cons x xs)
  then show ?case by (cases i) auto
qed

lemma replicate_filter_none: "\<not> P x \<Longrightarrow> filter P (replicate k x) = []"
  by (induction k) simp_all

lemma ebind_simps [simp]: "ebind (Inr x) f = f x" "ebind (Inl e) f = Inl e"
  by (simp_all add: ebind_def)

lemma obind_simps [simp]:
  "obind (Some (Inr x)) f = f x" "obind (Some (Inl e)) f = Some (Inl e)" "obind None f = None"
  by (simp_all add: obind_def)

lemma max_size_sector_id: "max_size sizeof_sector_id = 2305843009213693951"
  by (simp add: max_size_def sizeof_sector_id_def)

section \<open>Properties of follow\_chain\<close>

lemma follow_chain_loop_negative:
  "chain_from table c vs l \<Longrightarrow> l < 0 \<Longrightarrow> length ch + length vs \<le> max_size sizeof_sector_id
     \<Longrightarrow> follow_chain_loop table c ch = Some (Inr (ch @ vs))"
proof (induction arbitrary: ch rule: chain_from.induct)
  case (chain_from_stop table c)
  then show ?case by (subst follow_chain_loop.simps) simp
next
  case (chain_from_step c table vs l)
  from chain_from_step.prems have "length (ch @ [c]) + length vs \<le> max_size sizeof_sector_id"
    by simp
  from chain_from_step.IH [OF chain_from_step.prems(1) this] chain_from_step.hyps chain_from_step.prems
  show ?case by (subst follow_chain_loop.simps) (simp add: vec_get_def push_back_def)
qed

lemma follow_chain_loop_outside:
  "chain_from table c vs l \<Longrightarrow> 0 \<le> l \<Longrightarrow> \<not> nat l < length table
     \<Longrightarrow> length ch + length vs < max_size sizeof_sector_id
     \<Longrightarrow> follow_chain_loop table c ch = Some (Inl undefined_behaviour)"
proof (induction arbitrary: ch rule: chain_from.induct)
  case (chain_from_stop table c)
  then show ?case by (subst follow_chain_loop.simps) (simp add: vec_get_def push_back_def)
next
  case (chain_from_step c table vs l)
  from chain_from_step.prems have "length (ch @ [c]) + length vs < max_size sizeof_sector_id"
    by simp
  from chain_from_step.IH [OF chain_from_step.prems(1,2) this] chain_from_step.hyps chain_from_step.prems
  show ?case by (subst follow_chain_loop.simps) (simp add: vec_get_def push_back_def)
qed

lemma chain_from_snoc:
  "chain_from table c vs l \<Longrightarrow> 0 \<le> l \<Longrightarrow> nat l < length table
     \<Longrightarrow> chain_from table c (vs @ [l]) (table ! nat l)"
  by (induction rule: chain_from.induct) (auto intro: chain_from.intros)

lemma chain_from_hd: "chain_from table c vs l \<Longrightarrow> vs \<noteq> [] \<Longrightarrow> hd vs = c"
  by (erule chain_from.cases) auto

text \<open>A walk that arrives at a sector it has visited goes on from its second sector.\<close>

lemma revisit_next:
  assumes w: "chain_from table c vs l" and m: "l \<in> set vs"
  shows "0 \<le> c \<and> nat c < length table \<and>
    (\<exists>vs' l'. chain_from table (table ! nat c) vs' l' \<and> l' \<in> set vs')"
  using w
proof (cases rule: chain_from.cases)
  case chain_from_stop
  with m show ?thesis by simp
next
  case (chain_from_step vs0)
  show ?thesis
  proof (cases "l \<in> set vs0")
    case True
    with chain_from_step show ?thesis by blast
  next
    case False
    with m chain_from_step have lc: "l = c" by simp
    have "chain_from table (table ! nat c) (vs0 @ [c]) (table ! nat c)"
      using chain_from_snoc [OF chain_from_step(4)] lc chain_from_step by simp
    moreover have "table ! nat c \<in> set (vs0 @ [c])"
    proof (cases vs0)
      case Nil
      with chain_from_step(4) have "table ! nat c = l" by (auto elim: chain_from.cases)
      with lc show ?thesis by simp
    next
      case (Cons a as)
      with chain_from_hd [OF chain_from_step(4)] show ?thesis by simp
    qed
    ultimately show ?thesis using chain_from_step by blast
  qed
qed

text \<open>
  On a walk that comes back to a visited sector the chain grows with every turn, until the
  vector is full.
\<close>

lemma follow_chain_loop_revisit:
  "chain_from table c vs l \<Longrightarrow> l \<in> set vs \<Longrightarrow> length ch \<le> max_size sizeof_sector_id
     \<Longrightarrow> follow_chain_loop table c ch = Some (Inl alloc_error)"
proof (induction "max_size sizeof_sector_id - length ch" arbitrary: c vs l ch)
  case 0
  then have full: "\<not> length ch < max_size sizeof_sector_id" by simp
  from revisit_next [OF "0.prems"(1,2)] have "0 \<le> c" by simp
  with full show ?case by (subst follow_chain_loop.simps) (simp add: push_back_def)
next
  case (Suc n)
  from revisit_next [OF Suc.prems(1,2)] obtain vs' l' where
    r: "0 \<le> c" "nat c < length table" and
    w': "chain_from table (table ! nat c) vs' l'" "l' \<in> set vs'" by blast
  from Suc.hyps(2) have lt: "length ch < max_size sizeof_sector_id" by simp
  then have "n = max_size sizeof_sector_id - length (ch @ [c])"
    "length (ch @ [c]) \<le> max_size sizeof_sector_id"
    using Suc.hyps(2) by simp_all
  from Suc.hyps(1) [OF this(1) w' this(2)] r lt show ?case
    by (subst follow_chain_loop.simps) (simp add: vec_get_def push_back_def)
qed

text \<open>
  C5, as the source has it. \<open>follow_chain\<close> makes no check of the table. Let the walk from
  \<open>start\<close> visit the sectors \<open>vs\<close>, fewer than a vector can hold, and arrive at \<open>l\<close>. If \<open>l\<close>
  is negative, the call returns \<open>vs\<close>. If \<open>l\<close> is one of the sectors visited (a self-loop or
  any other revisited sector), the chain grows with every turn and the call ends when the
  vector cannot grow, with the exception of the allocation and not with a structural error.
  If \<open>l\<close> is a non-negative index outside the table, the call reads the table out of
  bounds, which is undefined behaviour: nothing is signalled.
\<close>

theorem follow_chain_unchecked:
  "length vs < max_size sizeof_sector_id \<Longrightarrow>
   (chain_from table start vs l \<and> l < 0 \<longrightarrow> follow_chain start table = Some (Inr vs)) \<and>
   (chain_from table start vs l \<and> l \<in> set vs \<longrightarrow> follow_chain start table = Some (Inl alloc_error)) \<and>
   (chain_from table start vs l \<and> 0 \<le> l \<and> \<not> nat l < length table \<longrightarrow>
      follow_chain start table = Some (Inl undefined_behaviour))"
  unfolding follow_chain_def
  using follow_chain_loop_negative [of table start vs l "[]"]
    follow_chain_loop_revisit [of table start vs l "[]"]
    follow_chain_loop_outside [of table start vs l "[]"]
  by simp

theorem follow_chain_unchecked_witness:
  "follow_chain 0 [1, 2, EndOfChain] = Some (Inr [0, 1, 2]) \<and>
   follow_chain 0 [1, 0] = Some (Inl alloc_error) \<and>
   follow_chain 0 [1, 7] = Some (Inl undefined_behaviour)"
proof -
  have a: "chain_from [1, 2, EndOfChain] 0 [0, 1, 2] EndOfChain"
    by (rule chain_from_step, simp, simp, simp, rule chain_from_step, simp, simp, simp,
        rule chain_from_step, simp, simp, simp add: chain_from_stop)
  have b: "chain_from [1, 0] 0 [0, 1] 0"
    by (rule chain_from_step, simp, simp, simp, rule chain_from_step, simp, simp,
        simp add: chain_from_stop)
  have c: "chain_from [1, 7] 0 [0, 1] 7"
    by (rule chain_from_step, simp, simp, simp, rule chain_from_step, simp, simp,
        simp add: chain_from_stop)
  have n: "length [0, 1, 2 :: int] < max_size sizeof_sector_id"
    "length [0, 1 :: int] < max_size sizeof_sector_id"
    by (simp_all add: max_size_sector_id)
  show ?thesis
    using follow_chain_unchecked [OF n(1), of "[1, 2, EndOfChain]" 0 EndOfChain]
      follow_chain_unchecked [OF n(2), of "[1, 0]" 0 0]
      follow_chain_unchecked [OF n(2), of "[1, 7]" 0 7] a b c
    by (simp add: EndOfChain_def)
qed

text \<open>
  The claim fails on a table of one slot that holds 7: \<open>follow_chain\<close> reads slot 7 of
  the table, out of its bounds, and no error is signalled.
\<close>

theorem follow_chain_out_of_bounds_counterexample:
  "follow_chain 0 [7] = Some (Inl undefined_behaviour)"
proof -
  have "chain_from [7] 0 [0] 7"
    by (rule chain_from_step, simp, simp, simp add: chain_from_stop)
  then show ?thesis
    unfolding follow_chain_def
    by (rule follow_chain_loop_outside) (simp_all add: max_size_sector_id)
qed

section \<open>Properties of the positions of directory entries\<close>

lemma mod_shift_neq:
  fixes w k n :: nat
  assumes "0 < k" "k < n" "w < n"
  shows "(k + w) mod n \<noteq> w"
proof (cases "k + w < n")
  case True
  with assms show ?thesis by simp
next
  case False
  then have "(k + w) mod n = (k + w - n) mod n" by (simp add: le_mod_geq)
  also have "\<dots> = k + w - n" using assms by simp
  finally show ?thesis using assms False by simp
qed

text \<open>
  C10 fails on the source. Whenever \<open>write_entry(id)\<close> computes a position \<open>w\<close> for
  \<open>seekp\<close>, \<open>read_entry(id)\<close> computes the position \<open>sector_data_start() + w\<close>, 512 bytes
  further, for \<open>seekg\<close>: \<open>write_entry\<close> leaves \<open>sector_data_start()\<close> out, so the two
  positions differ.
\<close>

theorem write_entry_position_misses_data_start:
  "write_entry_position id' s = Some (Inr w) \<Longrightarrow>
     read_entry_position id' s = Some (Inr ((sector_data_start + w) mod 2 ^ 64)) \<and>
     (sector_data_start + w) mod 2 ^ 64 \<noteq> w"
proof -
  assume h: "write_entry_position id' s = Some (Inr w)"
  then have "w < 2 ^ 64"
    by (auto simp: write_entry_position_def entry_offset_def obind_Inr Let_def
        split: if_splits)
  then have "(sector_data_start + w) mod 2 ^ 64 \<noteq> w"
    by (intro mod_shift_neq) (simp_all add: sector_data_start_def sizeof_header_def)
  with h show ?thesis
    by (simp add: read_entry_position_def write_entry_position_def obind_def)
qed

theorem write_entry_position_misses_data_start_witness:
  "read_entry_position 1 example_document = Some (Inr 1152) \<and> (1152 :: nat) \<noteq> 640"
proof -
  have h: "write_entry_position 1 example_document = Some (Inr 640)"
    by code_simp
  from write_entry_position_misses_data_start [OF h] show ?thesis
    by (simp add: sector_data_start_def sizeof_header_def)
qed

section \<open>Properties of the allocation of sectors\<close>

text \<open>Writing sectors changes the sink only.\<close>

lemma write_sector_out: "write_sector r i s = Inr s' \<Longrightarrow> \<exists>w. s' = s\<lparr>out_m := w\<rparr>"
  by (auto simp: write_sector_def ebind_Inr Let_def split: if_splits)

lemma write_sectors_out: "write_sectors r ids s = Inr s' \<Longrightarrow> \<exists>w. s' = s\<lparr>out_m := w\<rparr>"
proof (induction ids arbitrary: s)
  case Nil
  then have "s' = s\<lparr>out_m := out_m s\<rparr>" by simp
  then show ?case by blast
next
  case (Cons i ids)
  from Cons.prems obtain s1 where a: "write_sector r i s = Inr s1" and b: "write_sectors r ids s1 = Inr s'"
    by (auto simp: ebind_Inr)
  from write_sector_out [OF a] Cons.IH [OF b] show ?case by auto
qed

lemma write_sat_out: "write_sat s = Inr s' \<Longrightarrow> \<exists>w. s' = s\<lparr>out_m := w\<rparr>"
  unfolding write_sat_def by (rule write_sectors_out)

lemma allocate_sector_grow_tables:
  "allocate_sector_grow k s = Inr s' \<Longrightarrow>
     entries_m s' = entries_m s \<and> parent_storage_m s' = parent_storage_m s \<and>
     num_msat_sectors (header_m s') = num_msat_sectors (header_m s)"
  by (auto simp: allocate_sector_grow_def ebind_Inr Let_def dest!: write_sector_out)

lemma allocate_sector_tables:
  "allocate_sector s = Inr (i, s') \<Longrightarrow>
     entries_m s' = entries_m s \<and> parent_storage_m s' = parent_storage_m s \<and>
     num_msat_sectors (header_m s') = num_msat_sectors (header_m s)"
  by (auto simp: allocate_sector_def ebind_Inr Let_def split: if_splits
      dest!: write_sector_out write_sat_out allocate_sector_grow_tables)

lemma allocate_sectors_loop_length:
  "allocate_sectors_loop k chain current s = Inr (chain', s') \<Longrightarrow> length chain' = length chain + k"
proof (induction k arbitrary: chain current s)
  case 0
  then show ?case by simp
next
  case (Suc k)
  from Suc.prems obtain chain1 nxt s1 t where
    "push_back sizeof_sector_id chain current = Inr chain1"
    "allocate_sectors_loop k chain1 nxt (s1\<lparr>sat_m := t\<rparr>) = Inr (chain', s')"
    by (auto simp: ebind_Inr)
  with Suc.IH [OF this(2)] show ?case by (auto simp: push_back_def split: if_splits)
qed

text \<open>
  C2 fails on the source. \<open>allocate_sectors(n)\<close> pushes a sector onto the chain at the
  start of each of its \<open>n - 1\<close> loop iterations and returns without pushing the sector
  allocated last: whenever it returns, the chain holds \<open>n - 1\<close> sector IDs, not \<open>n\<close>.
  (\<open>allocate_short_sectors\<close> has the \<open>chain.push_back(current)\<close> after the loop.)
\<close>

theorem allocate_sectors_drops_last:
  "allocate_sectors count s = Inr (chain, s') \<Longrightarrow> length chain = count - 1"
  by (auto simp: allocate_sectors_def ebind_def split: if_splits sum.splits
      dest: allocate_sectors_loop_length)

text \<open>
  For two sectors on the example document the chain is the single sector 2, whose SAT slot
  holds 3, the sector that is allocated and not returned.
\<close>

theorem allocate_sectors_drops_last_witness:
  "(case allocate_sectors 2 example_document of
      Inr (chain, s') \<Rightarrow> length chain = 2 - 1 \<and> chain = [2] \<and> sat_m s' ! 2 = 3 \<and> sat_m s' ! 3 = EndOfChain
    | Inl e \<Rightarrow> False)"
proof -
  have ev: "(case allocate_sectors 2 example_document of
      Inr (chain, s') \<Rightarrow> chain = [2] \<and> sat_m s' ! 2 = 3 \<and> sat_m s' ! 3 = EndOfChain
    | Inl e \<Rightarrow> False)"
    by code_simp
  show ?thesis
  proof (cases "allocate_sectors 2 example_document")
    case (Inl e)
    with ev show ?thesis by simp
  next
    case (Inr p)
    obtain chain s' where p: "p = (chain, s')" by (cases p)
    from allocate_sectors_drops_last [of 2 example_document chain s'] Inr p ev
    show ?thesis by simp
  qed
qed

text \<open>
  C4 fails on the source. The branch of \<open>allocate_sector\<close> that grows the SAT reads
  \<open>header_.num_msat_sectors\<close> into \<open>next_msat_index\<close> and never writes it: whenever
  \<open>allocate_sector\<close> returns, the counter is what it was, also when a page has been added
  and its ID appended to the MSAT. (The sibling \<open>allocate_short_sector\<close> has
  \<open>++header_.num_short_sectors\<close>, and \<open>read_msat\<close> and \<open>write_msat\<close> count the pages by
  \<open>header_.num_msat_sectors\<close>.)
\<close>

theorem allocate_sector_keeps_num_msat_sectors:
  "allocate_sector s = Inr (next_free, s') \<Longrightarrow>
     num_msat_sectors (header_m s') = num_msat_sectors (header_m s)"
  by (simp add: allocate_sector_tables)

text \<open>
  On the example document with a full SAT page the call returns sector 129 after a second
  page, sector 128, has been added: the MSAT holds two pages and the counter is still 1.
\<close>

theorem allocate_sector_keeps_num_msat_sectors_witness:
  "(case allocate_sector full_sat_document of
      Inr (next_free, s') \<Rightarrow> next_free = 129 \<and> msat_m s' = [0, 128] \<and> length (sat_m s') = 256 \<and>
        sat_m s' ! 128 = SATSector \<and> msat (header_m s') ! 1 = 128 \<and>
        num_msat_sectors (header_m s') = num_msat_sectors (header_m full_sat_document) \<and>
        num_msat_sectors (header_m s') = 1
    | Inl e \<Rightarrow> False)"
proof -
  have ev: "(case allocate_sector full_sat_document of
      Inr (next_free, s') \<Rightarrow> next_free = 129 \<and> msat_m s' = [0, 128] \<and> length (sat_m s') = 256 \<and>
        sat_m s' ! 128 = SATSector \<and> msat (header_m s') ! 1 = 128
    | Inl e \<Rightarrow> False)"
    by code_simp
  have n: "num_msat_sectors (header_m full_sat_document) = 1"
    by code_simp
  show ?thesis
  proof (cases "allocate_sector full_sat_document")
    case (Inl e)
    with ev show ?thesis by simp
  next
    case (Inr p)
    obtain next_free s' where p: "p = (next_free, s')" by (cases p)
    from allocate_sector_keeps_num_msat_sectors [of full_sat_document next_free s'] Inr p ev n
    show ?thesis by simp
  qed
qed

text \<open>
  The same branch has no MSAT extension either: on a document whose MSAT fills the 109
  inline slots of the header and whose SAT is full, the new page's ID is stored at index
  109 of the inline array.
\<close>

lemma allocate_sector_msat_full:
  "allocate_sector msat_full_document = Inl undefined_behaviour"
proof -
  have "FreeSector \<notin> set (sat_m msat_full_document)"
    by (simp add: msat_full_document_def FreeSector_def SATSector_def EndOfChain_def)
  then have nf: "std_find (sat_m msat_full_document) FreeSector = length (sat_m msat_full_document)"
    by (simp add: std_find_absent)
  have ss: "sector_size msat_full_document = Inr 512"
    by (simp add: sector_size_def msat_full_document_def example_document_def example_header_def)
  have ti: "to_int32 (length (sat_m msat_full_document)) = Inr 13952"
    by (simp add: to_int32_def msat_full_document_def)
  have pb: "push_back sizeof_sector_id (msat_m msat_full_document) x = Inr (msat_m msat_full_document @ [x])" for x
    by (simp add: push_back_def max_size_sector_id msat_full_document_def)
  have ar: "array_set (msat (header_m msat_full_document)) (length (msat_m msat_full_document)) x
      = Inl undefined_behaviour" for x
    by (simp add: array_set_def msat_full_document_def example_header_def)
  show ?thesis
    unfolding allocate_sector_def allocate_sector_grow_def
    by (simp add: ss nf ti pb ar Let_def)
qed

section \<open>Properties of next\_empty\_entry\<close>

text \<open>
  C3 fails on the source, which has \<^verbatim>\<open>// TODO: connect chains here\<close> where the splice
  belongs. On the document with a full directory sector, \<open>allocate_sector\<close> hands out
  sector 2; the SAT slot of the directory's tail, sector 1, still holds \<open>END_OF_CHAIN\<close> and
  the chain from \<open>header.directory_start\<close> is still sector 1 alone. \<open>write_entry\<close> of the
  first new entry then indexes that chain past its end.
\<close>

theorem next_empty_entry_not_spliced:
  "(case allocate_sector full_document of
      Inr (new_sector, s1) \<Rightarrow> new_sector = 2 \<and> sat_m s1 ! 1 = EndOfChain \<and> sat_m s1 ! 2 = EndOfChain \<and>
        follow_chain (directory_start (header_m s1)) (sat_m s1) = Some (Inr [1])
    | Inl e \<Rightarrow> False) \<and>
   map_option (map_sum id fst) (next_empty_entry full_document) = Some (Inl undefined_behaviour)"
  by code_simp

section \<open>What an insert leaves of the directory\<close>

text \<open>The operations on the tree change neither names nor types nor the parent storages.\<close>

lemma entry_set_view:
  "entry_set upd i s = Inr s' \<Longrightarrow> (\<And>e. name_e (upd e) = name_e e \<and> type_e (upd e) = type_e e)
     \<Longrightarrow> directory_view s' = directory_view s"
  by (auto simp: entry_set_def ebind_Inr vec_get_def directory_view_def map_update
      split: if_splits intro!: nth_equalityI simp: nth_list_update)

lemma set_tree_left_view: "set_tree_left i v s = Inr s' \<Longrightarrow> directory_view s' = directory_view s"
  unfolding set_tree_left_def by (erule entry_set_view) simp

lemma set_tree_right_view: "set_tree_right i v s = Inr s' \<Longrightarrow> directory_view s' = directory_view s"
  unfolding set_tree_right_def by (erule entry_set_view) simp

lemma set_tree_child_view: "set_tree_child i v s = Inr s' \<Longrightarrow> directory_view s' = directory_view s"
  unfolding set_tree_child_def by (erule entry_set_view) simp

lemma set_tree_color_view: "set_tree_color i v s = Inr s' \<Longrightarrow> directory_view s' = directory_view s"
  unfolding set_tree_color_def by (erule entry_set_view) simp

lemma set_tree_root_view: "set_tree_root i v s = Inr s' \<Longrightarrow> directory_view s' = directory_view s"
  unfolding set_tree_root_def by (erule set_tree_child_view)

lemma set_tree_parent_view [simp]: "directory_view (set_tree_parent i v s) = directory_view s"
  by (simp add: set_tree_parent_def directory_view_def)

lemmas setter_views = set_tree_left_view set_tree_right_view set_tree_child_view
  set_tree_color_view set_tree_root_view

lemma tree_replace_child_view:
  "tree_replace_child x y s = Inr s' \<Longrightarrow> directory_view s' = directory_view s"
  by (auto simp: tree_replace_child_def ebind_Inr split: if_splits dest: setter_views)

lemma tree_rotate_left_view:
  "tree_rotate_left x s = Inr s' \<Longrightarrow> directory_view s' = directory_view s"
  by (auto simp: tree_rotate_left_def ebind_Inr Let_def split: if_splits
      dest!: setter_views tree_replace_child_view)

lemma tree_rotate_right_view:
  "tree_rotate_right x s = Inr s' \<Longrightarrow> directory_view s' = directory_view s"
  by (auto simp: tree_rotate_right_def ebind_Inr Let_def split: if_splits
      dest!: setter_views tree_replace_child_view)

lemma tree_insert_fixup_left_view:
  "tree_insert_fixup_left x s = Inr (x', s') \<Longrightarrow> directory_view s' = directory_view s"
  by (auto simp: tree_insert_fixup_left_def ebind_Inr Let_def split: if_splits
      dest!: setter_views tree_rotate_left_view tree_rotate_right_view)

lemma tree_insert_fixup_right_view:
  "tree_insert_fixup_right x s = Inr (x', s') \<Longrightarrow> directory_view s' = directory_view s"
  by (auto simp: tree_insert_fixup_right_def ebind_Inr Let_def split: if_splits
      dest!: setter_views tree_rotate_left_view tree_rotate_right_view)

lemma tree_insert_fixup_body_view:
  "tree_insert_fixup_body x s = Inr (x', s') \<Longrightarrow> directory_view s' = directory_view s"
  by (auto simp: tree_insert_fixup_body_def ebind_Inr split: if_splits
      dest: tree_insert_fixup_left_view tree_insert_fixup_right_view)

lemma tree_insert_fixup_loop_view:
  assumes ret: "tree_insert_fixup_loop x s = Some r"
  shows "case r of Inl e \<Rightarrow> True | Inr (x', s') \<Rightarrow> directory_view s' = directory_view s"
proof (rule tree_insert_fixup_loop.raw_induct
    [where xa = "(x, s)" and
      P = "\<lambda>x s r. case r of Inl e \<Rightarrow> True | Inr (x', s') \<Rightarrow> directory_view s' = directory_view s",
      unfolded prod.case, OF _ ret])
  fix f :: "directory_id \<Rightarrow> compound_document \<Rightarrow> (error + (directory_id \<times> compound_document)) option"
  fix x s r
  assume IH: "\<And>x s r. f x s = Some r \<Longrightarrow>
      (case r of Inl e \<Rightarrow> True | Inr (x', s') \<Rightarrow> directory_view s' = directory_view s)"
  assume body: "(case tree_insert_fixup_cond x s of
        Inl e \<Rightarrow> Some (Inl e)
      | Inr continue \<Rightarrow>
          if continue then
            (case tree_insert_fixup_body x s of
               Inl e \<Rightarrow> Some (Inl e)
             | Inr (x1, s1) \<Rightarrow> f x1 s1)
          else Some (Inr (x, s))) = Some r"
  show "case r of Inl e \<Rightarrow> True | Inr (x', s') \<Rightarrow> directory_view s' = directory_view s"
    using body
    by (auto split: sum.splits if_splits prod.splits dest!: IH tree_insert_fixup_body_view)
qed

lemma tree_insert_fixup_view:
  "tree_insert_fixup x s = Some (Inr s') \<Longrightarrow> directory_view s' = directory_view s"
  by (auto simp: tree_insert_fixup_def obind_def ebind_Inr
      split: option.splits sum.splits prod.splits
      dest!: tree_insert_fixup_loop_view setter_views)

lemma tree_insert_view:
  "tree_insert new_id storage_id s = Some (Inr s') \<Longrightarrow>
     directory_view s' = directory_view (s\<lparr>parent_storage_m := (parent_storage_m s)(new_id \<mapsto> storage_id)\<rparr>)"
  by (auto simp: tree_insert_def obind_def ebind_Inr Let_def
      split: option.splits sum.splits if_splits
      dest!: tree_insert_fixup_view setter_views)

text \<open>Allocation and the writes to the sink leave the entries alone.\<close>

lemma write_entry_out: "write_entry i s = Some (Inr s') \<Longrightarrow> \<exists>w. s' = s\<lparr>out_m := w\<rparr>"
  by (cases "vec_get (entries_m s) i") (auto simp: write_entry_def obind_Inr)

lemma next_empty_entry_fill_directory:
  "next_empty_entry_fill k i entry_id s = Some (Inr s') \<Longrightarrow>
     entries_m s' = entries_m s @ replicate k (default_entry\<lparr>type_e := Empty\<rparr>) \<and>
     parent_storage_m s' = parent_storage_m s"
proof (induction k arbitrary: i s)
  case 0
  then show ?case by simp
next
  case (Suc k)
  from Suc.prems obtain es id' s1 where
    p: "push_back sizeof_entry (entries_m s) (default_entry\<lparr>type_e := Empty\<rparr>) = Inr es" and
    a: "write_entry id' (s\<lparr>entries_m := es\<rparr>) = Some (Inr s1)" and
    b: "next_empty_entry_fill k (Suc i) entry_id s1 = Some (Inr s')"
    by (auto simp: obind_Inr Let_def)
  from p have "es = entries_m s @ [default_entry\<lparr>type_e := Empty\<rparr>]"
    by (auto simp: push_back_def split: if_splits)
  with write_entry_out [OF a] Suc.IH [OF b] show ?case
    by (auto simp: replicate_append_same)
qed

lemma next_empty_entry_directory:
  assumes "next_empty_entry s = Some (Inr (entry_id, s'))"
  shows "\<exists>k. entries_m s' = entries_m s @ replicate k (default_entry\<lparr>type_e := Empty\<rparr>) \<and>
     parent_storage_m s' = parent_storage_m s \<and> 0 \<le> entry_id \<and>
     (nat entry_id < length (entries_m s') \<longrightarrow> type_e (entries_m s' ! nat entry_id) = Empty)"
proof -
  define found where "found = std_find (map type_e (entries_m s)) Empty"
  from assms have bound: "to_int32 (length (entries_m s)) = Inr (int (length (entries_m s)))"
    by (auto simp: next_empty_entry_def obind_Inr to_int32_def split: if_splits)
  show ?thesis
  proof (cases "found < length (entries_m s)")
    case True
    with assms bound have e: "s' = s" "entry_id = int found"
      by (auto simp: next_empty_entry_def Let_def simp flip: found_def)
    from True have "map type_e (entries_m s) ! found = Empty"
      unfolding found_def by (intro std_find_found) simp
    with True have "type_e (entries_m s ! found) = Empty" by simp
    with e show ?thesis by (intro exI [of _ 0]) simp
  next
    case False
    with assms bound obtain ssize new_sector s1 where
      a: "allocate_sector s = Inr (new_sector, s1)" and
      b: "next_empty_entry_fill (ssize div sizeof_entry) 0 (int (length (entries_m s))) s1 = Some (Inr s')" and
      c: "entry_id = int (length (entries_m s))"
      by (auto simp: next_empty_entry_def Let_def obind_Inr simp flip: found_def)
    from allocate_sector_tables [OF a] next_empty_entry_fill_directory [OF b] c
    show ?thesis
      by (intro exI [of _ "ssize div sizeof_entry"]) (auto simp: nth_append)
  qed
qed

lemma count_type_view:
  "count_type t s = length (filter (\<lambda>p. snd p = t) (fst (directory_view s)))"
  by (simp add: count_type_def directory_view_def filter_map comp_def)

lemma insert_entry_directory:
  assumes "insert_entry name type s = Some (Inr (entry_id, s'))"
  shows "\<exists>k. fst (directory_view s') =
       (fst (directory_view s) @ replicate k ([], Empty))[nat entry_id := (name, type)] \<and>
     nat entry_id < length (entries_m s) + k \<and> 0 \<le> entry_id \<and>
     (nat entry_id < length (entries_m s) \<longrightarrow> type_e (entries_m s ! nat entry_id) = Empty) \<and>
     parent_storage_m s' = (parent_storage_m s)(entry_id \<mapsto> 0)"
proof -
  from assms obtain s1 entry0 entry1 s3 where
    a: "next_empty_entry s = Some (Inr (entry_id, s1))" and
    b: "vec_get (entries_m s1) entry_id = Inr entry0" and
    n: "entry_name name entry0 = Inr entry1" and
    c: "write_entry entry_id (s1\<lparr>entries_m := (entries_m s1)[nat entry_id := entry1\<lparr>type_e := type\<rparr>]\<rparr>)
          = Some (Inr s3)" and
    d: "tree_insert entry_id 0 s3 = Some (Inr s')"
    by (auto simp: insert_entry_def obind_Inr Let_def)
  define s2 where "s2 = s1\<lparr>entries_m := (entries_m s1)[nat entry_id := entry1\<lparr>type_e := type\<rparr>]\<rparr>"
  from next_empty_entry_directory [OF a] obtain k where
    k: "entries_m s1 = entries_m s @ replicate k (default_entry\<lparr>type_e := Empty\<rparr>)"
       "parent_storage_m s1 = parent_storage_m s" "0 \<le> entry_id"
       "nat entry_id < length (entries_m s1) \<longrightarrow> type_e (entries_m s1 ! nat entry_id) = Empty"
    by blast
  from b have r: "nat entry_id < length (entries_m s1)"
    by (auto simp: vec_get_def split: if_splits)
  from n have e1: "name_e entry1 = name"
    by (auto simp: entry_name_def split: if_splits)
  from write_entry_out [OF c] obtain w where s3: "s3 = s2\<lparr>out_m := w\<rparr>"
    unfolding s2_def by blast
  from tree_insert_view [OF d] have
    v: "directory_view s' = directory_view (s3\<lparr>parent_storage_m := (parent_storage_m s3)(entry_id \<mapsto> 0)\<rparr>)" .
  from v have v1: "map (\<lambda>e. (name_e e, type_e e)) (entries_m s') =
      map (\<lambda>e. (name_e e, type_e e)) (entries_m s3)"
    and v2: "parent_storage_m s' = (parent_storage_m s3)(entry_id \<mapsto> 0)"
    by (simp_all add: directory_view_def)
  have "fst (directory_view s') =
       (fst (directory_view s) @ replicate k ([], Empty))[nat entry_id := (name, type)]"
    using r by (simp add: v1 s3 s2_def k directory_view_def map_update default_entry_def e1)
  moreover have "parent_storage_m s' = (parent_storage_m s)(entry_id \<mapsto> 0)"
    by (simp add: v2 s3 s2_def k)
  moreover have "nat entry_id < length (entries_m s) \<longrightarrow> type_e (entries_m s ! nat entry_id) = Empty"
    using k(4) r by (auto simp: k(1) nth_append)
  ultimately show ?thesis using r k(3) by (intro exI [of _ k]) (simp add: k(1))
qed

section \<open>Where a naming error can come from\<close>

text \<open>
  The naming error is raised by the setter of the name and nowhere else: no other step of
  an insert, of the allocation or of the lookup ends in it.
\<close>

lemma ebind_Inl:
  "ebind m f = Inl e \<longleftrightarrow> m = Inl e \<or> (\<exists>x. m = Inr x \<and> f x = Inl e)"
  by (cases m) (simp_all add: ebind_def)

lemma obind_Inl:
  "obind m f = Some (Inl e) \<longleftrightarrow> m = Some (Inl e) \<or> (\<exists>x. m = Some (Inr x) \<and> f x = Some (Inl e))"
  by (auto simp: obind_def split: option.splits sum.splits)

lemma primitive_no_naming_error:
  "vec_get v i \<noteq> Inl naming_error"
  "vec_set v i x \<noteq> Inl naming_error"
  "array_set v n x \<noteq> Inl naming_error"
  "to_int32 n \<noteq> Inl naming_error"
  "push_back elem v x \<noteq> Inl naming_error"
  "resize elem v n x \<noteq> Inl naming_error"
  "int32_add a b \<noteq> Inl naming_error"
  "sector_size s \<noteq> Inl naming_error"
  by (simp_all add: vec_get_def vec_set_def array_set_def to_int32_def push_back_def resize_def
      int32_add_def sector_size_def)

lemma write_sector_no_naming_error: "write_sector reader id' s \<noteq> Inl naming_error"
  by (auto simp: write_sector_def ebind_Inl primitive_no_naming_error Let_def)

lemma write_sectors_no_naming_error: "write_sectors reader ids s \<noteq> Inl naming_error"
  by (induction ids arbitrary: s) (auto simp: ebind_Inl write_sector_no_naming_error)

lemma write_sat_no_naming_error: "write_sat s \<noteq> Inl naming_error"
  by (simp add: write_sat_def write_sectors_no_naming_error)

lemma allocate_sector_grow_no_naming_error: "allocate_sector_grow n s \<noteq> Inl naming_error"
  by (auto simp: allocate_sector_grow_def ebind_Inl primitive_no_naming_error Let_def
      write_sector_no_naming_error)

lemma allocate_sector_no_naming_error: "allocate_sector s \<noteq> Inl naming_error"
  by (auto simp: allocate_sector_def ebind_Inl primitive_no_naming_error Let_def
      write_sector_no_naming_error write_sat_no_naming_error allocate_sector_grow_no_naming_error
      split: if_splits)

lemma follow_chain_loop_no_naming_error:
  assumes ret: "follow_chain_loop table current chain = Some r"
  shows "r \<noteq> Inl naming_error"
proof (rule follow_chain_loop.raw_induct
    [where P = "\<lambda>table current chain r. r \<noteq> Inl naming_error", OF _ ret])
  fix f :: "sector_chain \<Rightarrow> sector_id \<Rightarrow> sector_chain \<Rightarrow> (error + sector_chain) option"
  fix table current chain r
  assume IH: "\<And>table current chain r. f table current chain = Some r \<Longrightarrow> r \<noteq> Inl naming_error"
  assume body: "(if current \<ge> 0 then
        (case push_back sizeof_sector_id chain current of
           Inl e \<Rightarrow> Some (Inl e)
         | Inr chain1 \<Rightarrow>
             (case vec_get table current of
                Inl e \<Rightarrow> Some (Inl e)
              | Inr nxt \<Rightarrow> f table nxt chain1))
      else Some (Inr chain)) = Some r"
  show "r \<noteq> Inl naming_error"
    using body primitive_no_naming_error(1) [of table current]
      primitive_no_naming_error(5) [of sizeof_sector_id chain current]
    by (auto split: sum.splits if_splits dest!: IH)
qed

lemma entry_offset_no_naming_error: "entry_offset id' s \<noteq> Some (Inl naming_error)"
  by (auto simp: entry_offset_def follow_chain_def obind_Inl primitive_no_naming_error Let_def
      dest: follow_chain_loop_no_naming_error)

lemma write_entry_no_naming_error: "write_entry id' s \<noteq> Some (Inl naming_error)"
  using primitive_no_naming_error(1) [of "entries_m s" id']
  by (auto simp: write_entry_def write_entry_position_def obind_Inl entry_offset_no_naming_error
      split: sum.splits)

lemma next_empty_entry_fill_no_naming_error:
  "next_empty_entry_fill k i entry_id s \<noteq> Some (Inl naming_error)"
  by (induction k arbitrary: i s)
    (auto simp: obind_Inl ebind_Inl primitive_no_naming_error write_entry_no_naming_error Let_def)

lemma next_empty_entry_no_naming_error: "next_empty_entry s \<noteq> Some (Inl naming_error)"
  by (auto simp: next_empty_entry_def obind_Inl primitive_no_naming_error Let_def
      allocate_sector_no_naming_error next_empty_entry_fill_no_naming_error split: if_splits)

lemma accessor_no_naming_error:
  "entry_get field id' s \<noteq> Inl naming_error"
  "entry_set upd id' s \<noteq> Inl naming_error"
  "tree_left id' s \<noteq> Inl naming_error"
  "tree_right id' s \<noteq> Inl naming_error"
  "tree_child id' s \<noteq> Inl naming_error"
  "tree_color id' s \<noteq> Inl naming_error"
  "tree_key id' s \<noteq> Inl naming_error"
  "tree_root id' s \<noteq> Inl naming_error"
  "set_tree_left id' v s \<noteq> Inl naming_error"
  "set_tree_right id' v s \<noteq> Inl naming_error"
  "set_tree_child id' v s \<noteq> Inl naming_error"
  "set_tree_color id' c s \<noteq> Inl naming_error"
  "set_tree_root id' v s \<noteq> Inl naming_error"
  by (simp_all add: entry_get_def entry_set_def tree_left_def tree_right_def tree_child_def
      tree_color_def tree_key_def tree_root_def set_tree_left_def set_tree_right_def
      set_tree_child_def set_tree_color_def set_tree_root_def ebind_Inl primitive_no_naming_error)

lemma tree_replace_child_no_naming_error: "tree_replace_child x y s \<noteq> Inl naming_error"
  by (auto simp: tree_replace_child_def ebind_Inl accessor_no_naming_error)

lemma tree_rotate_left_no_naming_error: "tree_rotate_left x s \<noteq> Inl naming_error"
  by (auto simp: tree_rotate_left_def ebind_Inl accessor_no_naming_error Let_def
      tree_replace_child_no_naming_error)

lemma tree_rotate_right_no_naming_error: "tree_rotate_right x s \<noteq> Inl naming_error"
  by (auto simp: tree_rotate_right_def ebind_Inl accessor_no_naming_error Let_def
      tree_replace_child_no_naming_error)

lemma tree_insert_fixup_cond_no_naming_error: "tree_insert_fixup_cond x s \<noteq> Inl naming_error"
  by (auto simp: tree_insert_fixup_cond_def ebind_Inl accessor_no_naming_error)

lemma tree_insert_fixup_left_no_naming_error: "tree_insert_fixup_left x s \<noteq> Inl naming_error"
  by (auto simp: tree_insert_fixup_left_def ebind_Inl accessor_no_naming_error
      tree_rotate_left_no_naming_error tree_rotate_right_no_naming_error split: if_splits)

lemma tree_insert_fixup_right_no_naming_error: "tree_insert_fixup_right x s \<noteq> Inl naming_error"
  by (auto simp: tree_insert_fixup_right_def ebind_Inl accessor_no_naming_error
      tree_rotate_left_no_naming_error tree_rotate_right_no_naming_error split: if_splits)

lemma tree_insert_fixup_body_no_naming_error: "tree_insert_fixup_body x s \<noteq> Inl naming_error"
  by (auto simp: tree_insert_fixup_body_def ebind_Inl accessor_no_naming_error
      tree_insert_fixup_left_no_naming_error tree_insert_fixup_right_no_naming_error)

lemma tree_insert_fixup_loop_no_naming_error:
  assumes ret: "tree_insert_fixup_loop x s = Some r"
  shows "r \<noteq> Inl naming_error"
proof (rule tree_insert_fixup_loop.raw_induct
    [where xa = "(x, s)" and P = "\<lambda>x s r. r \<noteq> Inl naming_error", unfolded prod.case, OF _ ret])
  fix f :: "directory_id \<Rightarrow> compound_document \<Rightarrow> (error + (directory_id \<times> compound_document)) option"
  fix x s r
  assume IH: "\<And>x s r. f x s = Some r \<Longrightarrow> r \<noteq> Inl naming_error"
  assume body: "(case tree_insert_fixup_cond x s of
        Inl e \<Rightarrow> Some (Inl e)
      | Inr continue \<Rightarrow>
          if continue then
            (case tree_insert_fixup_body x s of
               Inl e \<Rightarrow> Some (Inl e)
             | Inr (x1, s1) \<Rightarrow> f x1 s1)
          else Some (Inr (x, s))) = Some r"
  show "r \<noteq> Inl naming_error"
    using body tree_insert_fixup_cond_no_naming_error [of x s]
      tree_insert_fixup_body_no_naming_error [of x s]
    by (auto split: sum.splits if_splits prod.splits dest!: IH)
qed

lemma tree_insert_fixup_no_naming_error: "tree_insert_fixup x s \<noteq> Some (Inl naming_error)"
  by (auto simp: tree_insert_fixup_def obind_Inl ebind_Inl accessor_no_naming_error
      dest: tree_insert_fixup_loop_no_naming_error)

lemma tree_insert_descend_no_naming_error:
  assumes ret: "tree_insert_descend new_id x y s = Some r"
  shows "r \<noteq> Inl naming_error"
proof (rule tree_insert_descend.raw_induct
    [where xa = "(((new_id, x), y), s)" and P = "\<lambda>new_id x y s r. r \<noteq> Inl naming_error",
      unfolded prod.case, OF _ ret])
  fix f :: "directory_id \<Rightarrow> directory_id \<Rightarrow> directory_id \<Rightarrow> compound_document \<Rightarrow> (error + directory_id) option"
  fix new_id x y s r
  assume IH: "\<And>new_id x y s r. f new_id x y s = Some r \<Longrightarrow> r \<noteq> Inl naming_error"
  assume body: "(if x \<ge> 0 then
        (case ebind (tree_key new_id s) (\<lambda>kn. ebind (tree_key x s) (\<lambda>kx.
                if compare_keys kn kx > 0 then tree_right x s else tree_left x s)) of
           Inl e \<Rightarrow> Some (Inl e)
         | Inr x1 \<Rightarrow> f new_id x1 x s)
      else Some (Inr y)) = Some r"
  have "ebind (tree_key new_id s) (\<lambda>kn. ebind (tree_key x s) (\<lambda>kx.
                if compare_keys kn kx > 0 then tree_right x s else tree_left x s)) \<noteq> Inl naming_error"
    by (auto simp: ebind_Inl accessor_no_naming_error)
  with body show "r \<noteq> Inl naming_error"
    by (auto split: sum.splits if_splits dest!: IH)
qed

lemma tree_insert_no_naming_error: "tree_insert new_id storage_id s \<noteq> Some (Inl naming_error)"
  by (auto simp: tree_insert_def obind_Inl ebind_Inl accessor_no_naming_error Let_def
      tree_insert_fixup_no_naming_error dest: tree_insert_descend_no_naming_error
      split: if_splits)

lemma insert_entry_naming_error:
  "insert_entry name type s = Some (Inl naming_error) \<Longrightarrow> 31 < length name"
  by (auto simp: insert_entry_def obind_Inl next_empty_entry_no_naming_error
      primitive_no_naming_error write_entry_no_naming_error tree_insert_no_naming_error
      entry_name_def Let_def split: if_splits)

lemma tree_path_loop_no_naming_error:
  assumes ret: "tree_path_loop s storage_id result = Some r"
  shows "r \<noteq> Inl naming_error"
proof (rule tree_path_loop.raw_induct
    [where P = "\<lambda>s storage_id result r. r \<noteq> Inl naming_error", OF _ ret])
  fix f :: "compound_document \<Rightarrow> directory_id \<Rightarrow> string list \<Rightarrow> (error + string list) option"
  fix s storage_id result r
  assume IH: "\<And>s storage_id result r. f s storage_id result = Some r \<Longrightarrow> r \<noteq> Inl naming_error"
  assume body: "(if storage_id > 0 then
        (let storage_id1 = map_at (parent_storage_m s) storage_id
         in case ebind (vec_get (entries_m s) storage_id1) (\<lambda>entry.
                   push_back sizeof_string result (name_e entry)) of
              Inl e \<Rightarrow> Some (Inl e)
            | Inr result1 \<Rightarrow> f s storage_id1 result1)
      else Some (Inr result)) = Some r"
  have "ebind (vec_get (entries_m s) (map_at (parent_storage_m s) storage_id)) (\<lambda>entry.
                   push_back sizeof_string result (name_e entry)) \<noteq> Inl naming_error"
    by (auto simp: ebind_Inl primitive_no_naming_error)
  with body show "r \<noteq> Inl naming_error"
    by (auto simp: Let_def split: sum.splits if_splits dest!: IH)
qed

lemma tree_path_no_naming_error: "tree_path id' s \<noteq> Some (Inl naming_error)"
  by (auto simp: tree_path_def obind_Inl ebind_Inl primitive_no_naming_error
      dest: tree_path_loop_no_naming_error)

lemma find_entry_loop_no_naming_error:
  "find_entry_loop name type s entry_id es \<noteq> Some (Inl naming_error)"
  by (induction es arbitrary: entry_id)
    (auto simp: obind_Inl primitive_no_naming_error tree_path_no_naming_error split: if_splits)

lemma find_entry_no_naming_error: "find_entry name type s \<noteq> Some (Inl naming_error)"
  by (simp add: find_entry_def find_entry_loop_no_naming_error)

lemma open_write_stream_naming_error:
  "open_write_stream name s = Some (Inl naming_error) \<Longrightarrow> 31 < length name"
  by (auto simp: open_write_stream_def contains_entry_def obind_Inl ebind_Inl entries_at_def
      find_entry_no_naming_error split: if_splits dest: insert_entry_naming_error)

section \<open>Properties of insert\_entry\<close>

text \<open>
  C6, as the source has it. No step of \<open>insert_entry\<close> or of \<open>open_write_stream\<close> compares
  the new name with the names of the entries of the storage, so for no document and no name
  of at most 31 characters does either of them end in a naming error; and whenever the
  insert of a user stream returns, the directory holds one more user stream than before,
  the new entry among them. This is so also when the name equals an existing name once
  both are case-folded.
\<close>

theorem insert_entry_no_collision_check:
  "(length name \<le> 31 \<longrightarrow>
      insert_entry name type s \<noteq> Some (Inl naming_error) \<and>
      open_write_stream name s \<noteq> Some (Inl naming_error)) \<and>
   (\<forall>entry_id s'. insert_entry name UserStream s = Some (Inr (entry_id, s')) \<longrightarrow>
      count_type UserStream s' = count_type UserStream s + 1 \<and>
      type_e (entries_m s' ! nat entry_id) = UserStream)"
proof (intro conjI impI allI)
  assume "length name \<le> 31"
  then show "insert_entry name type s \<noteq> Some (Inl naming_error)"
    using insert_entry_naming_error [of name type s] by auto
next
  assume "length name \<le> 31"
  then show "open_write_stream name s \<noteq> Some (Inl naming_error)"
    using open_write_stream_naming_error [of name s] by auto
next
  fix entry_id s'
  assume ret: "insert_entry name UserStream s = Some (Inr (entry_id, s'))"
  define xs where "xs k = fst (directory_view s) @ replicate k ([], Empty)" for k
  from insert_entry_directory [OF ret] obtain k where
    v: "fst (directory_view s') = (xs k)[nat entry_id := (name, UserStream)]" and
    r: "nat entry_id < length (entries_m s) + k" and
    e: "nat entry_id < length (entries_m s) \<longrightarrow> type_e (entries_m s ! nat entry_id) = Empty"
    unfolding xs_def by blast
  have len: "length (xs k) = length (entries_m s) + k"
    by (simp add: xs_def directory_view_def)
  have old: "snd (xs k ! nat entry_id) \<noteq> UserStream"
    using r e by (auto simp: xs_def directory_view_def nth_append)
  have "count_type UserStream s' = length (filter (\<lambda>p. snd p = UserStream) (xs k)) + 1"
    unfolding count_type_view v using r old
    by (subst filter_length_update) (simp_all add: len)
  also have "length (filter (\<lambda>p. snd p = UserStream) (xs k)) = count_type UserStream s"
    by (simp add: count_type_view xs_def replicate_filter_none)
  finally show "count_type UserStream s' = count_type UserStream s + 1" .
  have "length (entries_m s') = length (xs k)"
    using arg_cong [OF v, of length] by (simp add: directory_view_def)
  with r len have r': "nat entry_id < length (entries_m s')" by simp
  then have "fst (directory_view s') ! nat entry_id =
      (name_e (entries_m s' ! nat entry_id), type_e (entries_m s' ! nat entry_id))"
    by (simp add: directory_view_def)
  with v r len show "type_e (entries_m s' ! nat entry_id) = UserStream"
    by simp
qed

text \<open>
  On the document that holds the stream \<open>/Data\<close>, the insert of \<open>/DATA\<close>, whose key is
  equal, does not end in a naming error: it returns, and there are two user streams then.
\<close>

theorem insert_entry_no_collision_check_witness:
  "compare_keys ''/DATA'' (name_e (entries_m data_document ! 1)) = 0 \<and>
   length ''/DATA'' \<le> 31 \<and>
   insert_entry ''/DATA'' UserStream data_document \<noteq> Some (Inl naming_error) \<and>
   open_write_stream ''/DATA'' data_document \<noteq> Some (Inl naming_error) \<and>
   (\<exists>entry_id s'. insert_entry ''/DATA'' UserStream data_document = Some (Inr (entry_id, s')) \<and>
      count_type UserStream s' = 2 \<and> type_e (entries_m s' ! nat entry_id) = UserStream)"
proof -
  have "(case insert_entry ''/DATA'' UserStream data_document of Some (Inr p) \<Rightarrow> True | _ \<Rightarrow> False)"
    by code_simp
  then obtain entry_id s' where
    h: "insert_entry ''/DATA'' UserStream data_document = Some (Inr (entry_id, s'))"
    by (auto split: option.splits sum.splits)
  have c: "compare_keys ''/DATA'' (name_e (entries_m data_document ! 1)) = 0"
    by code_simp
  have n: "count_type UserStream data_document = 1"
    by code_simp
  have l: "length ''/DATA'' \<le> 31"
    by simp
  from insert_entry_no_collision_check [of "''/DATA''" UserStream data_document] h c n l
  show ?thesis by simp
qed

text \<open>
  The claim fails on the example document: \<open>/Data\<close> and \<open>/DATA\<close> have equal keys, both
  \<open>open_write_stream\<close> calls return, and the directory lists both streams.
\<close>

theorem insert_entry_no_naming_error_counterexample:
  "compare_keys ''/Data'' ''/DATA'' = 0 \<and>
   (case obind (open_write_stream ''/Data'' example_document) (open_write_stream ''/DATA'') of
      Some (Inr s') \<Rightarrow>
        map type_e (entries_m s') = [RootStorage, UserStream, UserStream, Empty] \<and>
        map name_e (entries_m s') = [''Root Entry'', ''/Data'', ''/DATA'', '''']
    | _ \<Rightarrow> False)"
  by code_simp

text \<open>
  The one lookup that precedes the insert is the guard \<open>contains_entry(name, UserStream)\<close>
  of \<open>open_write_stream\<close>. It compares the exact spelling of \<open>name\<close> with \<open>tree_path\<close>, not
  the case-folded names, and on a match the entry is used again, with no error. For an
  entry that \<open>insert_entry\<close> has made it does not match: the path of the entry \<open>/Data\<close> is
  \<open>//Data\<close>, and a second \<open>open_write_stream\<close> of the same name adds a second entry.
\<close>

lemma open_write_stream_guard:
  "tree_path 1 data_document = Some (Inr ''//Data'') \<and>
   contains_entry ''/Data'' UserStream data_document = Some (Inr False) \<and>
   (case open_write_stream ''/Data'' data_document of
      Some (Inr s') \<Rightarrow> map name_e (entries_m s') = [''Root Entry'', ''/Data'', ''/Data'', '''']
    | _ \<Rightarrow> False)"
  by code_simp

text \<open>
  C7 fails on the source, which has \<^verbatim>\<open>// TODO: parse path from name and use correct
  parent storage instead of 0\<close>. Whenever \<open>insert_entry\<close> returns, the parent storage
  recorded for the new entry is the root storage 0, the entry's name is the whole string it
  was given, separators included, and the insert of anything but a storage leaves the number
  of \<open>UserStorage\<close> entries as it was: no intermediate storage is created.
\<close>

theorem insert_entry_under_root:
  assumes "insert_entry name type s = Some (Inr (entry_id, s'))"
  shows "map_at (parent_storage_m s') entry_id = 0 \<and>
     name_e (entries_m s' ! nat entry_id) = name \<and>
     (type \<noteq> UserStorage \<longrightarrow> count_type UserStorage s' = count_type UserStorage s)"
proof -
  define xs where "xs k = fst (directory_view s) @ replicate k ([], Empty)" for k
  from insert_entry_directory [OF assms] obtain k where
    v: "fst (directory_view s') = (xs k)[nat entry_id := (name, type)]" and
    r: "nat entry_id < length (entries_m s) + k" and
    e: "nat entry_id < length (entries_m s) \<longrightarrow> type_e (entries_m s ! nat entry_id) = Empty" and
    p: "parent_storage_m s' = (parent_storage_m s)(entry_id \<mapsto> 0)"
    unfolding xs_def by blast
  have len: "length (xs k) = length (entries_m s) + k"
    by (simp add: xs_def directory_view_def)
  have old: "snd (xs k ! nat entry_id) \<noteq> UserStorage"
    using r e by (auto simp: xs_def directory_view_def nth_append)
  have "type \<noteq> UserStorage \<Longrightarrow>
      count_type UserStorage s' = length (filter (\<lambda>p. snd p = UserStorage) (xs k))"
    unfolding count_type_view v using r old
    by (subst filter_length_update) (simp_all add: len)
  moreover have "length (filter (\<lambda>p. snd p = UserStorage) (xs k)) = count_type UserStorage s"
    by (simp add: count_type_view xs_def replicate_filter_none)
  ultimately have c: "type \<noteq> UserStorage \<longrightarrow> count_type UserStorage s' = count_type UserStorage s"
    by simp
  have "length (entries_m s') = length (xs k)"
    using arg_cong [OF v, of length] by (simp add: directory_view_def)
  with r len have r': "nat entry_id < length (entries_m s')" by simp
  then have "fst (directory_view s') ! nat entry_id =
      (name_e (entries_m s' ! nat entry_id), type_e (entries_m s' ! nat entry_id))"
    by (simp add: directory_view_def)
  with v r len have "name_e (entries_m s' ! nat entry_id) = name" by simp
  with c p show ?thesis by (simp add: map_at_def)
qed

theorem insert_entry_under_root_witness:
  "\<exists>entry_id s'. insert_entry ''/Dir/Leaf'' UserStream example_document = Some (Inr (entry_id, s')) \<and>
     map_at (parent_storage_m s') entry_id = 0 \<and>
     name_e (entries_m s' ! nat entry_id) = ''/Dir/Leaf'' \<and>
     count_type UserStorage s' = 0"
proof -
  have "(case insert_entry ''/Dir/Leaf'' UserStream example_document of Some (Inr p) \<Rightarrow> True | _ \<Rightarrow> False)"
    by code_simp
  then obtain entry_id s' where
    h: "insert_entry ''/Dir/Leaf'' UserStream example_document = Some (Inr (entry_id, s'))"
    by (auto split: option.splits sum.splits)
  have n: "count_type UserStorage example_document = 0"
    by code_simp
  from insert_entry_under_root [OF h] h n show ?thesis by simp
qed

section \<open>Properties of the stream facade\<close>

lemma read_to_eof_take:
  "position_b b \<le> length (data_b b) \<Longrightarrow> read_to_eof n b = take n (drop (position_b b) (data_b b))"
proof (induction n arbitrary: b)
  case 0
  then show ?case by simp
next
  case (Suc n)
  show ?case
  proof (cases "position_b b = length (data_b b)")
    case True
    then show ?thesis by (simp add: uflow_def)
  next
    case False
    with Suc.prems have lt: "position_b b < length (data_b b)" by simp
    then have "read_to_eof n (b\<lparr>position_b := position_b b + 1\<rparr>)
        = take n (drop (position_b b + 1) (data_b b))"
      using Suc.IH [of "b\<lparr>position_b := position_b b + 1\<rparr>"] by simp
    with lt False show ?thesis
      by (simp add: uflow_def Cons_nth_drop_Suc [symmetric] del: drop_Suc)
  qed
qed

text \<open>
  C1 fails on the source. \<open>open_read_stream\<close> looks the entry up and then builds the
  stream buffer from the \<open>name\<close> it was given: whenever it returns, reading the stream to
  its end yields the characters of the name, whatever was written to the stream of that
  name. (\<open>open_write_stream\<close> likewise hands out a buffer that is never copied into the
  document.)
\<close>

theorem open_read_stream_yields_name:
  "open_read_stream name s = Some (Inr s') \<Longrightarrow>
     (\<exists>b. stream_in_buffer_m s' = Some b \<and> read_to_eof (Suc (length name)) b = name)"
proof -
  assume "open_read_stream name s = Some (Inr s')"
  then have b: "stream_in_buffer_m s' = Some (new_streambuf name)"
    by (auto simp: open_read_stream_def obind_def ebind_def split: option.splits sum.splits)
  have "read_to_eof (Suc (length name)) (new_streambuf name) = name"
    by (subst read_to_eof_take) (simp_all add: new_streambuf_def)
  with b show ?thesis by simp
qed

text \<open>The stream \<open>A\<close> of the document with the full directory is empty; reading \<open>/A\<close> yields two characters.\<close>

theorem open_read_stream_yields_name_witness:
  "(\<exists>b. stream_in_buffer_m (projr (the (open_read_stream ''/A'' full_document))) = Some b \<and>
      read_to_eof (Suc (length ''/A'')) b = ''/A'') \<and>
   size_e (entries_m full_document ! 1) = 0"
proof -
  have ev: "(case open_read_stream ''/A'' full_document of Some (Inr s') \<Rightarrow> True | _ \<Rightarrow> False)"
    by code_simp
  then obtain s' where h: "open_read_stream ''/A'' full_document = Some (Inr s')"
    by (auto split: option.splits sum.splits)
  have "size_e (entries_m full_document ! 1) = 0" by code_simp
  with open_read_stream_yields_name [OF h] h show ?thesis by simp
qed

text \<open>
  The path that \<open>tree_path\<close> gives an entry inside a storage \<open>p\<close> other than the root is made
  of the name of the storage that holds \<open>p\<close>, not of the name of \<open>p\<close>: the loop replaces
  \<open>storage_id\<close> by its parent storage before it reads the name.
\<close>

lemma tree_path_names_parent_of_storage:
  assumes "map_at (parent_storage_m s) id' = p" "0 < p" "map_at (parent_storage_m s) p = 0"
    and "vec_get (entries_m s) 0 = Inr root" "vec_get (entries_m s) id' = Inr entry"
  shows "tree_path id' s = Some (Inr (''/'' @ name_e root @ ''/'' @ name_e entry))"
proof -
  have "tree_path_loop s 0 [name_e root] = Some (Inr [name_e root])"
    by (subst tree_path_loop.simps) simp
  with assms have "tree_path_loop s p [] = Some (Inr [name_e root])"
    by (subst tree_path_loop.simps) (simp add: push_back_def max_size_def sizeof_string_def)
  with assms show ?thesis
    by (simp add: tree_path_def join_path_def)
qed

text \<open>
  C9 fails on the source. In the document with the stream \<open>A\<close> inside the storage \<open>C\<close>, no
  entry has the path \<open>/Root Entry/A\<close>: the root storage holds \<open>C\<close> only, and the path of the
  stream is \<open>/C/A\<close>. \<open>find_entry\<close> compares with \<open>tree_path\<close>, which names the root entry
  in the place of \<open>C\<close>: \<open>open_read_stream\<close> of the absent path \<open>/Root Entry/A\<close> returns a
  stream, and that of the path \<open>/C/A\<close> throws \<open>std::out_of_range\<close>.
\<close>

theorem open_read_stream_absent_path_found:
  "map name_e (entries_m nested_document) = [''Root Entry'', ''A'', [], ''C''] \<and>
   map type_e (entries_m nested_document) = [RootStorage, UserStream, Empty, UserStorage] \<and>
   map (map_at (parent_storage_m nested_document)) [1, 3] = [3, 0] \<and>
   tree_path 1 nested_document = Some (Inr ''/Root Entry/A'') \<and>
   (case open_read_stream ''/Root Entry/A'' nested_document of
      Some (Inr s') \<Rightarrow> stream_in_buffer_m s' = Some (new_streambuf ''/Root Entry/A'')
    | _ \<Rightarrow> False) \<and>
   open_read_stream ''/C/A'' nested_document = Some (Inl out_of_range)"
proof -
  have "(case open_read_stream ''/C/A'' nested_document of
      Some (Inl e) \<Rightarrow> e = out_of_range | _ \<Rightarrow> False)"
    by code_simp
  then have "open_read_stream ''/C/A'' nested_document = Some (Inl out_of_range)"
    by (auto split: option.splits sum.splits)
  moreover have "map name_e (entries_m nested_document) = [''Root Entry'', ''A'', [], ''C''] \<and>
   map type_e (entries_m nested_document) = [RootStorage, UserStream, Empty, UserStorage] \<and>
   map (map_at (parent_storage_m nested_document)) [1, 3] = [3, 0] \<and>
   tree_path 1 nested_document = Some (Inr ''/Root Entry/A'') \<and>
   (case open_read_stream ''/Root Entry/A'' nested_document of
      Some (Inr s') \<Rightarrow> stream_in_buffer_m s' = Some (new_streambuf ''/Root Entry/A'')
    | _ \<Rightarrow> False)"
    by code_simp
  ultimately show ?thesis by blast
qed

end
